theory Spec2Isabelle
  imports Complex_Main
begin

section \<open>Values of the runtime\<close>

text \<open>
  The repository is a mock fintech REST API written in JavaScript: a module of in-memory
  arrays (the entity store, \<^verbatim>\<open>mockData.js\<close>) and one Express router per resource.
  The embedding types every object by the fields the store and the OpenAPI schema give it.
  A stored number is a finite IEEE 754 double and is modelled as the rational it denotes;
  comparing two doubles is comparing these rationals, and the one subtraction the handlers
  make rounds as the runtime does (\<open>round_double\<close> below). Identifiers, statuses and
  timestamps are strings; a field that may be
  \<^verbatim>\<open>null\<close> or absent is an \<open>option\<close>. The fields of a request body and the
  parameters of a query string are typed in the same way, \<open>None\<close> when the request does
  not carry them; a request that sends a value of another JSON type is outside the model.
\<close>

text \<open>A JSON value, as it appears in the \<^verbatim>\<open>metadata\<close> object of a checker response.\<close>

datatype json = JNull | JBool bool | JNum rat | JStr string | JArr "json list"

text \<open>
  A JavaScript number that need not be finite: the result of \<^verbatim>\<open>parseFloat\<close> on a
  query-string parameter.
\<close>

datatype jsnum = NaN | NegInf | Fin rat | PosInf

text \<open>\<^verbatim>\<open>isNaN(x)\<close>, \<^verbatim>\<open>x <= 0\<close> and \<^verbatim>\<open>x >= y\<close>.\<close>

fun isNaN :: "jsnum \<Rightarrow> bool" where
  "isNaN NaN = True"
| "isNaN _ = False"

fun le_zero :: "jsnum \<Rightarrow> bool" where
  "le_zero NaN = False"
| "le_zero NegInf = True"
| "le_zero (Fin a) = (a \<le> 0)"
| "le_zero PosInf = False"

fun ge_js :: "jsnum \<Rightarrow> jsnum \<Rightarrow> bool" where
  "ge_js NaN y = False"
| "ge_js x NaN = False"
| "ge_js PosInf y = True"
| "ge_js x NegInf = True"
| "ge_js NegInf y = False"
| "ge_js (Fin a) PosInf = False"
| "ge_js (Fin a) (Fin b) = (b \<le> a)"

text \<open>\<^verbatim>\<open>JSON.stringify\<close> writes a number that is not finite as \<^verbatim>\<open>null\<close>.\<close>

fun json_of_jsnum :: "jsnum \<Rightarrow> json" where
  "json_of_jsnum (Fin a) = JNum a"
| "json_of_jsnum _ = JNull"

definition json_of_opt_str :: "string option \<Rightarrow> json" where
  "json_of_opt_str v = (case v of None \<Rightarrow> JNull | Some s \<Rightarrow> JStr s)"

text \<open>
  Truthiness. \<^verbatim>\<open>!v\<close> holds of \<^verbatim>\<open>undefined\<close>, \<^verbatim>\<open>null\<close>, the empty string and
  the number 0.
\<close>

definition falsy_str :: "string option \<Rightarrow> bool" where
  "falsy_str v = (v = None \<or> v = Some [])"

definition falsy_num :: "rat option \<Rightarrow> bool" where
  "falsy_num v = (v = None \<or> v = Some 0)"

text \<open>\<^verbatim>\<open>a || b\<close> on strings: a when it is truthy, b otherwise.\<close>

definition or_else :: "string option \<Rightarrow> string \<Rightarrow> string" where
  "or_else v d = (case v of None \<Rightarrow> d | Some s \<Rightarrow> if s = [] then d else s)"

text \<open>\<^verbatim>\<open>{...obj, ...updates}\<close> on one field: a field the patch carries replaces the stored one.\<close>

definition spread :: "'a \<Rightarrow> 'a option \<Rightarrow> 'a" where
  "spread old upd = (case upd of None \<Rightarrow> old | Some v \<Rightarrow> v)"

text \<open>\<^verbatim>\<open>String(n)\<close> for a natural number, \<^verbatim>\<open>padStart\<close>, and \<^verbatim>\<open>Array.prototype.join\<close>.\<close>

fun show_nat :: "nat \<Rightarrow> string" where
  "show_nat n =
     (if n < 10 then [''0123456789'' ! n]
      else show_nat (n div 10) @ [''0123456789'' ! (n mod 10)])"

declare show_nat.simps [simp del]

definition show_int :: "int \<Rightarrow> string" where
  "show_int i = (if i < 0 then CHR ''-'' # show_nat (nat (- i)) else show_nat (nat i))"

definition padStart :: "nat \<Rightarrow> char \<Rightarrow> string \<Rightarrow> string" where
  "padStart n c s = replicate (n - length s) c @ s"

fun join :: "string \<Rightarrow> string list \<Rightarrow> string" where
  "join sep [] = []"
| "join sep [x] = x"
| "join sep (x # y # ys) = x @ sep @ join sep (y # ys)"

text \<open>\<^verbatim>\<open>Array.prototype.findIndex\<close>: \<open>None\<close> stands for \<^verbatim>\<open>-1\<close>.\<close>

fun findIndex :: "('a \<Rightarrow> bool) \<Rightarrow> 'a list \<Rightarrow> nat option" where
  "findIndex P [] = None"
| "findIndex P (x # xs) = (if P x then Some 0 else map_option Suc (findIndex P xs))"

section \<open>Numbers of the runtime\<close>

text \<open>
  A double has 53 significant bits and a binary exponent between -1022 and 1023. The result
  of an arithmetic operation is the exact result rounded to the nearest double, a tie going
  to the one whose last bit is 0; an exact result whose rounding would need the exponent
  1024 is an infinity. The sign of a zero is not modelled: \<^verbatim>\<open>-0\<close> and \<^verbatim>\<open>0\<close> compare equal
  and are both written \<^verbatim>\<open>0\<close> in JSON.
\<close>

definition pow2 :: "int \<Rightarrow> rat" where
  "pow2 e = (if 0 \<le> e then 2 ^ nat e else 1 / 2 ^ nat (- e))"

text \<open>The number of binary digits of a positive integer.\<close>

function bit_length :: "int \<Rightarrow> int" where
  "bit_length n = (if n \<le> 0 then 0 else 1 + bit_length (n div 2))"
  by pat_completeness auto
termination
  by (relation "measure nat") auto

declare bit_length.simps [simp del]

text \<open>
  For a positive rational a, the integer l with \<open>2 ^ l \<le> a < 2 ^ (l + 1)\<close>: the
  difference d of the bit lengths of numerator and denominator, or \<open>d - 1\<close>.
\<close>

definition floor_log2 :: "rat \<Rightarrow> int" where
  "floor_log2 a =
     (case quotient_of a of (p, q) \<Rightarrow>
        (let d = bit_length p - bit_length q
         in if pow2 d \<le> a then d else d - 1))"

definition round_half_even :: "rat \<Rightarrow> int" where
  "round_half_even m =
     (let f = \<lfloor>m\<rfloor>; r = m - of_int f
      in if r < 1 / 2 then f else if 1 / 2 < r then f + 1
         else if even f then f else f + 1)"

text \<open>
  Rounding to the nearest double. The exponent e is that of the number, and -1022 for a
  subnormal one; the doubles around the number are the multiples of \<open>2 ^ (e - 52)\<close>.
  Rounding up from the largest double (exponent 1023, all 53 bits set) gives an infinity.
\<close>

definition round_double :: "rat \<Rightarrow> jsnum" where
  "round_double x =
     (if x = 0 then Fin 0
      else
        (let a = \<bar>x\<bar>; l = floor_log2 a in
         if 1024 \<le> l then (if x < 0 then NegInf else PosInf)
         else
           (let e = max l (- 1022);
                q = pow2 (e - 52);
                n = round_half_even (a / q)
            in if e = 1023 \<and> n = 2 ^ 53 then (if x < 0 then NegInf else PosInf)
               else Fin (if x < 0 then - (of_int n * q) else of_int n * q))))"

text \<open>\<^verbatim>\<open>a - b\<close> on two finite doubles.\<close>

definition dsub :: "rat \<Rightarrow> rat \<Rightarrow> jsnum" where
  "dsub a b = round_double (a - b)"

subsection \<open>parseFloat\<close>

text \<open>
  \<^verbatim>\<open>parseFloat(s)\<close> skips leading white space, reads the longest prefix of the rest that
  is a decimal literal (an optional sign, then \<^verbatim>\<open>Infinity\<close>, or digits with an optional
  fraction and an optional exponent) and ignores what follows it; the result is the value
  of the literal rounded to a double, and \<^verbatim>\<open>NaN\<close> when there is no such prefix. An exponent
  mark that no digit follows is not part of the literal. A character of the model is a code
  unit below 256, so the white space characters are tab, line feed, vertical tab, form
  feed, carriage return, space and the no-break space; the white space characters of
  Unicode above 255 are outside the model.
\<close>

definition isWhiteSpace :: "char \<Rightarrow> bool" where
  "isWhiteSpace c = (c = CHR 0x09 \<or> c = CHR 0x0A \<or> c = CHR 0x0B \<or> c = CHR 0x0C
                      \<or> c = CHR 0x0D \<or> c = CHR 0x20 \<or> c = CHR 0xA0)"

definition isDigit :: "char \<Rightarrow> bool" where
  "isDigit c = (48 \<le> (of_char c :: nat) \<and> (of_char c :: nat) \<le> 57)"

definition digits_value :: "string \<Rightarrow> int" where
  "digits_value ds = foldl (\<lambda>acc c. 10 * acc + (of_char c - 48)) 0 ds"

definition pow10 :: "int \<Rightarrow> rat" where
  "pow10 e = (if 0 \<le> e then 10 ^ nat e else 1 / 10 ^ nat (- e))"

text \<open>
  The exponent that the text after the mantissa gives: that of \<^verbatim>\<open>e\<close> or \<^verbatim>\<open>E\<close>, an
  optional sign and digits, and 0 when the text does not start so (the value of no digits
  is 0).
\<close>

definition exponent_part :: "string \<Rightarrow> int" where
  "exponent_part s =
     (case s of
        [] \<Rightarrow> 0
      | c # r \<Rightarrow>
          if c = CHR ''e'' \<or> c = CHR ''E'' then
            (case r of
               [] \<Rightarrow> 0
             | d # r' \<Rightarrow>
                 if d = CHR ''-'' then - digits_value (takeWhile isDigit r')
                 else if d = CHR ''+'' then digits_value (takeWhile isDigit r')
                 else digits_value (takeWhile isDigit r))
          else 0)"

text \<open>
  The value of the longest unsigned literal that is a prefix: digits, digits and a fraction
  (\<^verbatim>\<open>5.\<close> and \<^verbatim>\<open>.5\<close> are literals, \<^verbatim>\<open>.\<close> is not), each with its exponent.
\<close>

definition unsigned_literal :: "string \<Rightarrow> rat option" where
  "unsigned_literal s =
     (let ip = takeWhile isDigit s; r1 = dropWhile isDigit s in
      case r1 of
        [] \<Rightarrow> (if ip = [] then None else Some (of_int (digits_value ip)))
      | c # r \<Rightarrow>
          if c = CHR ''.'' then
            (let fp = takeWhile isDigit r; r2 = dropWhile isDigit r in
             if ip = [] \<and> fp = [] then None
             else Some ((of_int (digits_value ip)
                         + of_int (digits_value fp) / 10 ^ length fp)
                        * pow10 (exponent_part r2)))
          else if ip = [] then None
          else Some (of_int (digits_value ip) * pow10 (exponent_part r1)))"

definition js_parseFloat :: "string \<Rightarrow> jsnum" where
  "js_parseFloat s =
     (let t = dropWhile isWhiteSpace s;
          negative = (case t of [] \<Rightarrow> False | c # _ \<Rightarrow> c = CHR ''-'');
          u = (case t of
                 [] \<Rightarrow> []
               | c # r \<Rightarrow> if c = CHR ''+'' \<or> c = CHR ''-'' then r else t)
      in if take 8 u = ''Infinity'' then (if negative then NegInf else PosInf)
         else (case unsigned_literal u of
                 None \<Rightarrow> NaN
               | Some m \<Rightarrow> round_double (if negative then - m else m)))"

section \<open>The entity store\<close>

record account =
  acc_id :: string
  acc_customerId :: string
  acc_type :: string
  acc_currency :: string
  acc_balance :: rat
  acc_status :: string
  acc_accountNumber :: string
  acc_createdAt :: string
  acc_updatedAt :: string

record transaction =
  txn_id :: string
  txn_accountId :: string
  txn_type :: string
  txn_amount :: rat
  txn_currency :: string
  txn_description :: string
  txn_status :: string
  txn_counterparty :: string
  txn_initiatedAt :: string
  txn_processedAt :: "string option"
  txn_reference :: string

record payment =
  pay_id :: string
  pay_accountId :: string
  pay_beneficiary :: string
  pay_beneficiaryAccount :: string
  pay_amount :: rat
  pay_currency :: string
  pay_method :: string
  pay_status :: string
  pay_reference :: string
  pay_initiatedAt :: string
  pay_completedAt :: "string option"
  pay_kycComplete :: bool
  pay_sufficientBalance :: bool

record loan =
  loan_id :: string
  loan_customerId :: string
  loan_accountId :: string
  loan_amount :: rat
  loan_currency :: string
  loan_purpose :: string
  loan_tenure :: int
  loan_interestRate :: rat
  loan_status :: string
  loan_creditScore :: int
  loan_eligible :: bool
  loan_appliedAt :: string
  loan_approvedAt :: "string option"
  loan_disbursedAt :: "string option"
  loan_monthlyPayment :: "rat option"
  loan_remainingBalance :: "rat option"
  loan_rejectionReason :: "string option"
  loan_collateral :: "json option"

record airtime_purchase =
  air_id :: string
  air_accountId :: string
  air_phoneNumber :: string
  air_amount :: rat
  air_currency :: string
  air_provider :: string
  air_status :: string
  air_transactionReference :: string
  air_purchasedAt :: string
  air_completedAt :: "string option"
  air_deliveryStatus :: string

record kyc_record =
  kyc_customerId :: string
  kyc_status :: string
  kyc_level :: string
  kyc_documents :: "string list"
  kyc_riskRating :: string
  kyc_verifiedAt :: "string option"
  kyc_expiresAt :: "string option"
  kyc_pendingItems :: "string list"
  kyc_rejectionReason :: "string option"

record account_limit =
  lim_accountId :: string
  lim_dailyLimit :: rat
  lim_monthlyLimit :: rat
  lim_dailyUsed :: rat
  lim_monthlyUsed :: rat
  lim_currency :: string
  lim_updatedAt :: string

text \<open>The module's seven arrays.\<close>

record store =
  accounts :: "account list"
  transactions :: "transaction list"
  payments :: "payment list"
  loans :: "loan list"
  airtimePurchases :: "airtime_purchase list"
  kycRecords :: "kyc_record list"
  accountLimits :: "account_limit list"

definition getAccountById :: "store \<Rightarrow> string \<Rightarrow> account option" where
  "getAccountById st i = find (\<lambda>acc. acc_id acc = i) (accounts st)"

definition getTransactionById :: "store \<Rightarrow> string \<Rightarrow> transaction option" where
  "getTransactionById st i = find (\<lambda>txn. txn_id txn = i) (transactions st)"

definition getPaymentById :: "store \<Rightarrow> string \<Rightarrow> payment option" where
  "getPaymentById st i = find (\<lambda>pay. pay_id pay = i) (payments st)"

definition getLoanById :: "store \<Rightarrow> string \<Rightarrow> loan option" where
  "getLoanById st i = find (\<lambda>loan. loan_id loan = i) (loans st)"

definition getAirtimePurchaseById :: "store \<Rightarrow> string \<Rightarrow> airtime_purchase option" where
  "getAirtimePurchaseById st i = find (\<lambda>p. air_id p = i) (airtimePurchases st)"

definition getKycRecord :: "store \<Rightarrow> string \<Rightarrow> kyc_record option" where
  "getKycRecord st customerId = find (\<lambda>kyc. kyc_customerId kyc = customerId) (kycRecords st)"

definition getAccountLimit :: "store \<Rightarrow> string \<Rightarrow> account_limit option" where
  "getAccountLimit st accountId = find (\<lambda>limit. lim_accountId limit = accountId) (accountLimits st)"

subsection \<open>Payments\<close>

text \<open>
  The clock: \<^verbatim>\<open>new Date().toISOString()\<close> is read several times while one request is
  handled; the model takes one reading per request, the argument \<open>now\<close>.
\<close>

text \<open>The object \<^verbatim>\<open>addPayment\<close> receives from the initiate route.\<close>

record payment_input =
  pin_accountId :: string
  pin_beneficiary :: string
  pin_beneficiaryAccount :: string
  pin_amount :: rat
  pin_currency :: string
  pin_method :: string
  pin_reference :: "string option"
  pin_kycComplete :: bool
  pin_sufficientBalance :: bool

definition addPayment :: "string \<Rightarrow> payment_input \<Rightarrow> store \<Rightarrow> payment \<times> store" where
  "addPayment now payment st =
     (let newPayment = \<lparr>
            pay_id = ''pay-'' @ padStart 3 CHR ''0'' (show_nat (length (payments st) + 1)),
            pay_accountId = pin_accountId payment,
            pay_beneficiary = pin_beneficiary payment,
            pay_beneficiaryAccount = pin_beneficiaryAccount payment,
            pay_amount = pin_amount payment,
            pay_currency = pin_currency payment,
            pay_method = pin_method payment,
            pay_status = ''pending'',
            pay_reference = or_else (pin_reference payment)
              (''PAY-REF-'' @ padStart 3 CHR ''0'' (show_nat (length (payments st) + 1))),
            pay_initiatedAt = now,
            pay_completedAt = None,
            pay_kycComplete = pin_kycComplete payment,
            pay_sufficientBalance = pin_sufficientBalance payment \<rparr>
      in (newPayment, st\<lparr>payments := payments st @ [newPayment]\<rparr>))"

text \<open>The \<^verbatim>\<open>updates\<close> object of \<^verbatim>\<open>updatePayment\<close>: every field may be carried or not.\<close>

record payment_patch =
  pp_id :: "string option"
  pp_accountId :: "string option"
  pp_beneficiary :: "string option"
  pp_beneficiaryAccount :: "string option"
  pp_amount :: "rat option"
  pp_currency :: "string option"
  pp_method :: "string option"
  pp_status :: "string option"
  pp_reference :: "string option"
  pp_initiatedAt :: "string option"
  pp_completedAt :: "string option option"
  pp_kycComplete :: "bool option"
  pp_sufficientBalance :: "bool option"

definition no_payment_patch :: payment_patch where
  "no_payment_patch = \<lparr>
     pp_id = None, pp_accountId = None, pp_beneficiary = None, pp_beneficiaryAccount = None,
     pp_amount = None, pp_currency = None, pp_method = None, pp_status = None,
     pp_reference = None, pp_initiatedAt = None, pp_completedAt = None,
     pp_kycComplete = None, pp_sufficientBalance = None \<rparr>"

definition merge_payment :: "payment \<Rightarrow> payment_patch \<Rightarrow> payment" where
  "merge_payment p u = \<lparr>
     pay_id = spread (pay_id p) (pp_id u),
     pay_accountId = spread (pay_accountId p) (pp_accountId u),
     pay_beneficiary = spread (pay_beneficiary p) (pp_beneficiary u),
     pay_beneficiaryAccount = spread (pay_beneficiaryAccount p) (pp_beneficiaryAccount u),
     pay_amount = spread (pay_amount p) (pp_amount u),
     pay_currency = spread (pay_currency p) (pp_currency u),
     pay_method = spread (pay_method p) (pp_method u),
     pay_status = spread (pay_status p) (pp_status u),
     pay_reference = spread (pay_reference p) (pp_reference u),
     pay_initiatedAt = spread (pay_initiatedAt p) (pp_initiatedAt u),
     pay_completedAt = spread (pay_completedAt p) (pp_completedAt u),
     pay_kycComplete = spread (pay_kycComplete p) (pp_kycComplete u),
     pay_sufficientBalance = spread (pay_sufficientBalance p) (pp_sufficientBalance u) \<rparr>"

definition updatePayment ::
  "string \<Rightarrow> string \<Rightarrow> payment_patch \<Rightarrow> store \<Rightarrow> payment option \<times> store" where
  "updatePayment now i updates st =
     (case findIndex (\<lambda>pay. pay_id pay = i) (payments st) of
        None \<Rightarrow> (None, st)
      | Some index \<Rightarrow>
          (let merged = merge_payment (payments st ! index) updates;
               stamped =
                 (if pp_status updates = Some ''completed'' \<and> falsy_str (pay_completedAt merged)
                  then merged\<lparr>pay_completedAt := Some now\<rparr> else merged)
           in (Some stamped, st\<lparr>payments := (payments st)[index := stamped]\<rparr>)))"

subsection \<open>Loans\<close>

record loan_patch =
  lp_id :: "string option"
  lp_customerId :: "string option"
  lp_accountId :: "string option"
  lp_amount :: "rat option"
  lp_currency :: "string option"
  lp_purpose :: "string option"
  lp_tenure :: "int option"
  lp_interestRate :: "rat option"
  lp_status :: "string option"
  lp_creditScore :: "int option"
  lp_eligible :: "bool option"
  lp_appliedAt :: "string option"
  lp_approvedAt :: "string option option"
  lp_disbursedAt :: "string option option"
  lp_monthlyPayment :: "rat option option"
  lp_remainingBalance :: "rat option option"
  lp_rejectionReason :: "string option option"
  lp_collateral :: "json option option"

definition no_loan_patch :: loan_patch where
  "no_loan_patch = \<lparr>
     lp_id = None, lp_customerId = None, lp_accountId = None, lp_amount = None,
     lp_currency = None, lp_purpose = None, lp_tenure = None, lp_interestRate = None,
     lp_status = None, lp_creditScore = None, lp_eligible = None, lp_appliedAt = None,
     lp_approvedAt = None, lp_disbursedAt = None, lp_monthlyPayment = None,
     lp_remainingBalance = None, lp_rejectionReason = None, lp_collateral = None \<rparr>"

definition merge_loan :: "loan \<Rightarrow> loan_patch \<Rightarrow> loan" where
  "merge_loan l u = \<lparr>
     loan_id = spread (loan_id l) (lp_id u),
     loan_customerId = spread (loan_customerId l) (lp_customerId u),
     loan_accountId = spread (loan_accountId l) (lp_accountId u),
     loan_amount = spread (loan_amount l) (lp_amount u),
     loan_currency = spread (loan_currency l) (lp_currency u),
     loan_purpose = spread (loan_purpose l) (lp_purpose u),
     loan_tenure = spread (loan_tenure l) (lp_tenure u),
     loan_interestRate = spread (loan_interestRate l) (lp_interestRate u),
     loan_status = spread (loan_status l) (lp_status u),
     loan_creditScore = spread (loan_creditScore l) (lp_creditScore u),
     loan_eligible = spread (loan_eligible l) (lp_eligible u),
     loan_appliedAt = spread (loan_appliedAt l) (lp_appliedAt u),
     loan_approvedAt = spread (loan_approvedAt l) (lp_approvedAt u),
     loan_disbursedAt = spread (loan_disbursedAt l) (lp_disbursedAt u),
     loan_monthlyPayment = spread (loan_monthlyPayment l) (lp_monthlyPayment u),
     loan_remainingBalance = spread (loan_remainingBalance l) (lp_remainingBalance u),
     loan_rejectionReason = spread (loan_rejectionReason l) (lp_rejectionReason u),
     loan_collateral = spread (loan_collateral l) (lp_collateral u) \<rparr>"

text \<open>The two stamps are applied one after the other, each on the record as it then stands.\<close>

definition updateLoan ::
  "string \<Rightarrow> string \<Rightarrow> loan_patch \<Rightarrow> store \<Rightarrow> loan option \<times> store" where
  "updateLoan now i updates st =
     (case findIndex (\<lambda>loan. loan_id loan = i) (loans st) of
        None \<Rightarrow> (None, st)
      | Some index \<Rightarrow>
          (let merged = merge_loan (loans st ! index) updates;
               approved =
                 (if lp_status updates = Some ''approved'' \<and> falsy_str (loan_approvedAt merged)
                  then merged\<lparr>loan_approvedAt := Some now\<rparr> else merged);
               disbursed =
                 (if lp_status updates = Some ''disbursed'' \<and> falsy_str (loan_disbursedAt approved)
                  then approved\<lparr>loan_disbursedAt := Some now\<rparr> else approved)
           in (Some disbursed, st\<lparr>loans := (loans st)[index := disbursed]\<rparr>)))"

subsection \<open>Airtime purchases\<close>

record airtime_patch =
  ap_id :: "string option"
  ap_accountId :: "string option"
  ap_phoneNumber :: "string option"
  ap_amount :: "rat option"
  ap_currency :: "string option"
  ap_provider :: "string option"
  ap_status :: "string option"
  ap_transactionReference :: "string option"
  ap_purchasedAt :: "string option"
  ap_completedAt :: "string option option"
  ap_deliveryStatus :: "string option"

definition no_airtime_patch :: airtime_patch where
  "no_airtime_patch = \<lparr>
     ap_id = None, ap_accountId = None, ap_phoneNumber = None, ap_amount = None,
     ap_currency = None, ap_provider = None, ap_status = None,
     ap_transactionReference = None, ap_purchasedAt = None, ap_completedAt = None,
     ap_deliveryStatus = None \<rparr>"

definition merge_airtime :: "airtime_purchase \<Rightarrow> airtime_patch \<Rightarrow> airtime_purchase" where
  "merge_airtime p u = \<lparr>
     air_id = spread (air_id p) (ap_id u),
     air_accountId = spread (air_accountId p) (ap_accountId u),
     air_phoneNumber = spread (air_phoneNumber p) (ap_phoneNumber u),
     air_amount = spread (air_amount p) (ap_amount u),
     air_currency = spread (air_currency p) (ap_currency u),
     air_provider = spread (air_provider p) (ap_provider u),
     air_status = spread (air_status p) (ap_status u),
     air_transactionReference = spread (air_transactionReference p) (ap_transactionReference u),
     air_purchasedAt = spread (air_purchasedAt p) (ap_purchasedAt u),
     air_completedAt = spread (air_completedAt p) (ap_completedAt u),
     air_deliveryStatus = spread (air_deliveryStatus p) (ap_deliveryStatus u) \<rparr>"

definition updateAirtimePurchase ::
  "string \<Rightarrow> string \<Rightarrow> airtime_patch \<Rightarrow> store \<Rightarrow> airtime_purchase option \<times> store" where
  "updateAirtimePurchase now i updates st =
     (case findIndex (\<lambda>p. air_id p = i) (airtimePurchases st) of
        None \<Rightarrow> (None, st)
      | Some index \<Rightarrow>
          (let merged = merge_airtime (airtimePurchases st ! index) updates;
               stamped =
                 (if ap_status updates = Some ''completed'' \<and> falsy_str (air_completedAt merged)
                  then merged\<lparr>air_completedAt := Some now, air_deliveryStatus := ''delivered''\<rparr>
                  else merged)
           in (Some stamped,
               st\<lparr>airtimePurchases := (airtimePurchases st)[index := stamped]\<rparr>)))"

subsection \<open>KYC records\<close>

record kyc_patch =
  kp_customerId :: "string option"
  kp_status :: "string option"
  kp_level :: "string option"
  kp_documents :: "string list option"
  kp_riskRating :: "string option"
  kp_verifiedAt :: "string option option"
  kp_expiresAt :: "string option option"
  kp_pendingItems :: "string list option"
  kp_rejectionReason :: "string option option"

definition no_kyc_patch :: kyc_patch where
  "no_kyc_patch = \<lparr>
     kp_customerId = None, kp_status = None, kp_level = None, kp_documents = None,
     kp_riskRating = None, kp_verifiedAt = None, kp_expiresAt = None,
     kp_pendingItems = None, kp_rejectionReason = None \<rparr>"

definition merge_kyc :: "kyc_record \<Rightarrow> kyc_patch \<Rightarrow> kyc_record" where
  "merge_kyc k u = \<lparr>
     kyc_customerId = spread (kyc_customerId k) (kp_customerId u),
     kyc_status = spread (kyc_status k) (kp_status u),
     kyc_level = spread (kyc_level k) (kp_level u),
     kyc_documents = spread (kyc_documents k) (kp_documents u),
     kyc_riskRating = spread (kyc_riskRating k) (kp_riskRating u),
     kyc_verifiedAt = spread (kyc_verifiedAt k) (kp_verifiedAt u),
     kyc_expiresAt = spread (kyc_expiresAt k) (kp_expiresAt u),
     kyc_pendingItems = spread (kyc_pendingItems k) (kp_pendingItems u),
     kyc_rejectionReason = spread (kyc_rejectionReason k) (kp_rejectionReason u) \<rparr>"

text \<open>
  \<open>expiry\<close> is the second clock-derived string of \<^verbatim>\<open>updateKycRecord\<close>, the instant 365
  days after \<open>now\<close>. A customer without a record gets one made of the defaults and the
  patch; that branch returns before the stamping code.
\<close>

definition updateKycRecord ::
  "string \<Rightarrow> string \<Rightarrow> string \<Rightarrow> kyc_patch \<Rightarrow> store \<Rightarrow> kyc_record \<times> store" where
  "updateKycRecord now expiry customerId updates st =
     (case findIndex (\<lambda>kyc. kyc_customerId kyc = customerId) (kycRecords st) of
        None \<Rightarrow>
          (let newRecord = merge_kyc \<lparr>
                 kyc_customerId = customerId, kyc_status = ''pending'', kyc_level = ''tier1'',
                 kyc_documents = [], kyc_riskRating = ''medium'', kyc_verifiedAt = None,
                 kyc_expiresAt = None, kyc_pendingItems = [], kyc_rejectionReason = None \<rparr>
                 updates
           in (newRecord, st\<lparr>kycRecords := kycRecords st @ [newRecord]\<rparr>))
      | Some index \<Rightarrow>
          (let merged = merge_kyc (kycRecords st ! index) updates;
               stamped =
                 (if kp_status updates = Some ''approved'' \<and> falsy_str (kyc_verifiedAt merged)
                  then merged\<lparr>kyc_verifiedAt := Some now, kyc_expiresAt := Some expiry\<rparr>
                  else merged)
           in (stamped, st\<lparr>kycRecords := (kycRecords st)[index := stamped]\<rparr>)))"

subsection \<open>Account limits\<close>

record limit_patch =
  mp_accountId :: "string option"
  mp_dailyLimit :: "rat option"
  mp_monthlyLimit :: "rat option"
  mp_dailyUsed :: "rat option"
  mp_monthlyUsed :: "rat option"
  mp_currency :: "string option"
  mp_updatedAt :: "string option"

definition merge_limit :: "account_limit \<Rightarrow> limit_patch \<Rightarrow> account_limit" where
  "merge_limit l u = \<lparr>
     lim_accountId = spread (lim_accountId l) (mp_accountId u),
     lim_dailyLimit = spread (lim_dailyLimit l) (mp_dailyLimit u),
     lim_monthlyLimit = spread (lim_monthlyLimit l) (mp_monthlyLimit u),
     lim_dailyUsed = spread (lim_dailyUsed l) (mp_dailyUsed u),
     lim_monthlyUsed = spread (lim_monthlyUsed l) (mp_monthlyUsed u),
     lim_currency = spread (lim_currency l) (mp_currency u),
     lim_updatedAt = spread (lim_updatedAt l) (mp_updatedAt u) \<rparr>"

text \<open>
  On an existing record \<^verbatim>\<open>updatedAt\<close> is written after the patch; on a new one the patch
  comes last.
\<close>

definition updateAccountLimit ::
  "string \<Rightarrow> string \<Rightarrow> limit_patch \<Rightarrow> store \<Rightarrow> account_limit \<times> store" where
  "updateAccountLimit now accountId updates st =
     (case findIndex (\<lambda>limit. lim_accountId limit = accountId) (accountLimits st) of
        None \<Rightarrow>
          (let newLimit = merge_limit \<lparr>
                 lim_accountId = accountId, lim_dailyLimit = 1000, lim_monthlyLimit = 10000,
                 lim_dailyUsed = 0, lim_monthlyUsed = 0, lim_currency = ''GHS'',
                 lim_updatedAt = now \<rparr> updates
           in (newLimit, st\<lparr>accountLimits := accountLimits st @ [newLimit]\<rparr>))
      | Some index \<Rightarrow>
          (let updated = (merge_limit (accountLimits st ! index) updates)\<lparr>lim_updatedAt := now\<rparr>
           in (updated, st\<lparr>accountLimits := (accountLimits st)[index := updated]\<rparr>)))"

section \<open>The resource handlers\<close>

text \<open>
  A handler reads and writes the module's arrays and sends one response. The model passes
  the store in and returns the response with the store as the handler leaves it. The first
  component of every response is the HTTP status: \<^verbatim>\<open>res.json\<close> sends 200,
  \<^verbatim>\<open>res.status(n).json\<close> sends n.
\<close>

text \<open>
  The envelope of the operations that are not checkers: HTTP status, \<^verbatim>\<open>data\<close>,
  \<^verbatim>\<open>message\<close>, \<^verbatim>\<open>timestamp\<close>, \<^verbatim>\<open>requestId\<close> on success; HTTP status,
  \<^verbatim>\<open>message\<close>, \<^verbatim>\<open>timestamp\<close>, \<^verbatim>\<open>requestId\<close> on error.
\<close>

datatype 'a envelope =
    SuccessEnvelope nat 'a string string string
  | ErrorEnvelope nat string string string

record checker_response =
  http_status :: nat
  result :: bool
  reason :: string
  metadata :: "(string \<times> json) list"
  timestamp :: string
  requestId :: string

subsection \<open>routes/payments.js\<close>

record initiate_body =
  ib_accountId :: "string option"
  ib_beneficiary :: "string option"
  ib_beneficiaryAccount :: "string option"
  ib_amount :: "rat option"
  ib_currency :: "string option"
  ib_method :: "string option"
  ib_reference :: "string option"

text \<open>
  The first test returns when a required field is falsy, so the fields are present where
  they are read; the last case of the pattern match cannot occur.
\<close>

definition payments_initiate ::
  "string \<Rightarrow> string \<Rightarrow> initiate_body \<Rightarrow> store \<Rightarrow> payment envelope \<times> store" where
  "payments_initiate now rid body st =
     (if falsy_str (ib_accountId body) \<or> falsy_str (ib_beneficiary body)
         \<or> falsy_str (ib_beneficiaryAccount body) \<or> falsy_num (ib_amount body)
         \<or> falsy_str (ib_currency body)
      then (ErrorEnvelope 400
        ''Missing required fields: accountId, beneficiary, beneficiaryAccount, amount, currency''
        now rid, st)
      else
        (case (ib_accountId body, ib_beneficiary body, ib_beneficiaryAccount body,
               ib_amount body, ib_currency body) of
           (Some accountId, Some beneficiary, Some beneficiaryAccount, Some amount, Some currency) \<Rightarrow>
             if amount \<le> 0
             then (ErrorEnvelope 400 ''Amount must be greater than 0'' now rid, st)
             else
               (case getAccountById st accountId of
                  None \<Rightarrow> (ErrorEnvelope 404 ''Account not found'' now rid, st)
                | Some account \<Rightarrow>
                    (case addPayment now \<lparr>
                            pin_accountId = accountId,
                            pin_beneficiary = beneficiary,
                            pin_beneficiaryAccount = beneficiaryAccount,
                            pin_amount = amount,
                            pin_currency = currency,
                            pin_method = or_else (ib_method body) ''bank_transfer'',
                            pin_reference = ib_reference body,
                            pin_kycComplete = True,
                            pin_sufficientBalance = (amount \<le> acc_balance account) \<rparr> st of
                       (payment, st') \<Rightarrow>
                         (SuccessEnvelope 201 payment ''Payment initiated'' now rid, st')))
         | _ \<Rightarrow> (ErrorEnvelope 400
             ''Missing required fields: accountId, beneficiary, beneficiaryAccount, amount, currency''
             now rid, st)))"

definition payments_cancel ::
  "string \<Rightarrow> string \<Rightarrow> string \<Rightarrow> store \<Rightarrow> payment option envelope \<times> store" where
  "payments_cancel now rid paymentId st =
     (case getPaymentById st paymentId of
        None \<Rightarrow> (ErrorEnvelope 404 ''Payment not found'' now rid, st)
      | Some payment \<Rightarrow>
          if pay_status payment = ''completed''
          then (ErrorEnvelope 400 ''Cannot cancel a completed payment'' now rid, st)
          else
            (case updatePayment now paymentId
                    (no_payment_patch\<lparr>pp_status := Some ''cancelled''\<rparr>) st of
               (updatedPayment, st') \<Rightarrow>
                 (SuccessEnvelope 200 updatedPayment ''Payment cancelled'' now rid, st')))"

definition payments_check_ready ::
  "string \<Rightarrow> string \<Rightarrow> string \<Rightarrow> store \<Rightarrow> checker_response \<times> store" where
  "payments_check_ready now rid paymentId st =
     (case getPaymentById st paymentId of
        None \<Rightarrow>
          (\<lparr> http_status = 200, result = False, reason = ''Payment not found'',
             metadata = [(''paymentId'', JStr paymentId)],
             timestamp = now, requestId = rid \<rparr>, st)
      | Some payment \<Rightarrow>
          (let isReady = (pay_kycComplete payment \<and> pay_sufficientBalance payment
                            \<and> pay_status payment = ''pending'');
               reasons0 = [];
               reasons1 = (if pay_kycComplete payment then reasons0
                           else reasons0 @ [''KYC not complete'']);
               reasons2 = (if pay_sufficientBalance payment then reasons1
                           else reasons1 @ [''Insufficient balance'']);
               reasons = (if pay_status payment = ''pending'' then reasons2
                          else reasons2 @ [''Payment status is '' @ pay_status payment])
           in (\<lparr> http_status = 200, result = isReady,
                 reason = (if isReady then ''Payment is ready to process''
                           else join '', '' reasons),
                 metadata = [(''paymentId'', JStr (pay_id payment)),
                             (''status'', JStr (pay_status payment)),
                             (''kycComplete'', JBool (pay_kycComplete payment)),
                             (''sufficientBalance'', JBool (pay_sufficientBalance payment)),
                             (''amount'', JNum (pay_amount payment)),
                             (''currency'', JStr (pay_currency payment))],
                 timestamp = now, requestId = rid \<rparr>, st)))"

subsection \<open>routes/loans.js\<close>

definition loans_check_eligible ::
  "string \<Rightarrow> string \<Rightarrow> string \<Rightarrow> store \<Rightarrow> checker_response \<times> store" where
  "loans_check_eligible now rid loanId st =
     (case getLoanById st loanId of
        None \<Rightarrow>
          (\<lparr> http_status = 200, result = False, reason = ''Loan not found'',
             metadata = [(''loanId'', JStr loanId)],
             timestamp = now, requestId = rid \<rparr>, st)
      | Some loan \<Rightarrow>
          (let isEligible = (loan_eligible loan \<and> 650 \<le> loan_creditScore loan)
           in (\<lparr> http_status = 200, result = isEligible,
                 reason = (if isEligible then ''Loan is eligible''
                           else ''Credit score '' @ show_int (loan_creditScore loan)
                                @ '' is below minimum threshold (650)''),
                 metadata = [(''loanId'', JStr (loan_id loan)),
                             (''creditScore'', JNum (of_int (loan_creditScore loan))),
                             (''eligible'', JBool (loan_eligible loan)),
                             (''amount'', JNum (loan_amount loan)),
                             (''status'', JStr (loan_status loan))],
                 timestamp = now, requestId = rid \<rparr>, st)))"

definition loans_check_approved ::
  "string \<Rightarrow> string \<Rightarrow> string \<Rightarrow> store \<Rightarrow> checker_response \<times> store" where
  "loans_check_approved now rid loanId st =
     (case getLoanById st loanId of
        None \<Rightarrow>
          (\<lparr> http_status = 200, result = False, reason = ''Loan not found'',
             metadata = [(''loanId'', JStr loanId)],
             timestamp = now, requestId = rid \<rparr>, st)
      | Some loan \<Rightarrow>
          (let isApproved = (loan_status loan = ''approved'');
               pendingChecks =
                 (if isApproved then []
                  else [JStr ''credit_check'', JStr ''document_verification'',
                        JStr ''risk_assessment''])
           in (\<lparr> http_status = 200, result = isApproved,
                 reason = (if isApproved then ''Loan has been approved''
                           else ''Loan status is: '' @ loan_status loan),
                 metadata = [(''loanId'', JStr (loan_id loan)),
                             (''status'', JStr (loan_status loan)),
                             (''pendingChecks'', JArr pendingChecks),
                             (''approvedAt'', json_of_opt_str (loan_approvedAt loan))],
                 timestamp = now, requestId = rid \<rparr>, st)))"

definition loans_approve ::
  "string \<Rightarrow> string \<Rightarrow> string \<Rightarrow> store \<Rightarrow> loan option envelope \<times> store" where
  "loans_approve now rid loanId st =
     (case getLoanById st loanId of
        None \<Rightarrow> (ErrorEnvelope 404 ''Loan not found'' now rid, st)
      | Some loan \<Rightarrow>
          if loan_status loan \<noteq> ''pending''
          then (ErrorEnvelope 400 (''Cannot approve loan with status: '' @ loan_status loan)
                  now rid, st)
          else
            (case updateLoan now loanId
                    (no_loan_patch\<lparr>
                       lp_status := Some ''approved'',
                       lp_disbursedAt := Some (Some now),
                       lp_remainingBalance := Some (Some (loan_amount loan))\<rparr>) st of
               (updatedLoan, st') \<Rightarrow>
                 (SuccessEnvelope 200 updatedLoan ''Loan approved and disbursed'' now rid, st')))"

definition loans_reject ::
  "string \<Rightarrow> string \<Rightarrow> string \<Rightarrow> string option \<Rightarrow> store \<Rightarrow> loan option envelope \<times> store" where
  "loans_reject now rid loanId reason_given st =
     (case getLoanById st loanId of
        None \<Rightarrow> (ErrorEnvelope 404 ''Loan not found'' now rid, st)
      | Some loan \<Rightarrow>
          if loan_status loan \<noteq> ''pending''
          then (ErrorEnvelope 400 (''Cannot reject loan with status: '' @ loan_status loan)
                  now rid, st)
          else
            (case updateLoan now loanId
                    (no_loan_patch\<lparr>
                       lp_status := Some ''rejected'',
                       lp_rejectionReason :=
                         Some (Some (or_else reason_given
                           ''Application does not meet requirements''))\<rparr>) st of
               (updatedLoan, st') \<Rightarrow>
                 (SuccessEnvelope 200 updatedLoan ''Loan application rejected'' now rid, st')))"

subsection \<open>The routers of accounts, transactions, airtime and KYC: the checkers\<close>

definition accounts_check_active ::
  "string \<Rightarrow> string \<Rightarrow> string \<Rightarrow> store \<Rightarrow> checker_response \<times> store" where
  "accounts_check_active now rid accountId st =
     (case getAccountById st accountId of
        None \<Rightarrow>
          (\<lparr> http_status = 200, result = False, reason = ''Account not found'',
             metadata = [(''accountId'', JStr accountId)],
             timestamp = now, requestId = rid \<rparr>, st)
      | Some account \<Rightarrow>
          (let isActive = (acc_status account = ''active'')
           in (\<lparr> http_status = 200, result = isActive,
                 reason = (if isActive then ''Account is active''
                           else ''Account status is: '' @ acc_status account),
                 metadata = [(''accountId'', JStr (acc_id account)),
                             (''status'', JStr (acc_status account)),
                             (''accountNumber'', JStr (acc_accountNumber account))],
                 timestamp = now, requestId = rid \<rparr>, st)))"

definition transactions_check_cleared ::
  "string \<Rightarrow> string \<Rightarrow> string \<Rightarrow> store \<Rightarrow> checker_response \<times> store" where
  "transactions_check_cleared now rid txnId st =
     (case getTransactionById st txnId of
        None \<Rightarrow>
          (\<lparr> http_status = 200, result = False, reason = ''Transaction not found'',
             metadata = [(''transactionId'', JStr txnId)],
             timestamp = now, requestId = rid \<rparr>, st)
      | Some txn \<Rightarrow>
          (let isCleared = (txn_status txn = ''cleared'')
           in (\<lparr> http_status = 200, result = isCleared,
                 reason = (if isCleared then ''Transaction has been cleared''
                           else ''Transaction status is: '' @ txn_status txn),
                 metadata = [(''transactionId'', JStr (txn_id txn)),
                             (''status'', JStr (txn_status txn)),
                             (''amount'', JNum (txn_amount txn)),
                             (''currency'', JStr (txn_currency txn)),
                             (''processedAt'', json_of_opt_str (txn_processedAt txn))],
                 timestamp = now, requestId = rid \<rparr>, st)))"

definition airtime_check_completed ::
  "string \<Rightarrow> string \<Rightarrow> string \<Rightarrow> store \<Rightarrow> checker_response \<times> store" where
  "airtime_check_completed now rid purchaseId st =
     (case getAirtimePurchaseById st purchaseId of
        None \<Rightarrow>
          (\<lparr> http_status = 200, result = False, reason = ''Airtime purchase not found'',
             metadata = [(''purchaseId'', JStr purchaseId)],
             timestamp = now, requestId = rid \<rparr>, st)
      | Some purchase \<Rightarrow>
          (let isCompleted = (air_status purchase = ''completed'')
           in (\<lparr> http_status = 200, result = isCompleted,
                 reason = (if isCompleted then ''Airtime purchase has been completed''
                           else ''Purchase status is: '' @ air_status purchase),
                 metadata = [(''purchaseId'', JStr (air_id purchase)),
                             (''status'', JStr (air_status purchase)),
                             (''deliveryStatus'', JStr (air_deliveryStatus purchase)),
                             (''phoneNumber'', JStr (air_phoneNumber purchase)),
                             (''amount'', JNum (air_amount purchase)),
                             (''provider'', JStr (air_provider purchase)),
                             (''completedAt'', json_of_opt_str (air_completedAt purchase))],
                 timestamp = now, requestId = rid \<rparr>, st)))"

definition kyc_check_approved ::
  "string \<Rightarrow> string \<Rightarrow> string \<Rightarrow> store \<Rightarrow> checker_response \<times> store" where
  "kyc_check_approved now rid customerId st =
     (case getKycRecord st customerId of
        None \<Rightarrow>
          (\<lparr> http_status = 200, result = False, reason = ''KYC record not found'',
             metadata = [(''customerId'', JStr customerId)],
             timestamp = now, requestId = rid \<rparr>, st)
      | Some kyc \<Rightarrow>
          (let isApproved = (kyc_status kyc = ''approved'')
           in (\<lparr> http_status = 200, result = isApproved,
                 reason = (if isApproved then ''KYC is approved''
                           else ''KYC status is: '' @ kyc_status kyc),
                 metadata = [(''customerId'', JStr (kyc_customerId kyc)),
                             (''status'', JStr (kyc_status kyc)),
                             (''level'', JStr (kyc_level kyc)),
                             (''riskRating'', JStr (kyc_riskRating kyc)),
                             (''pendingItems'', JArr (map JStr (kyc_pendingItems kyc))),
                             (''verifiedAt'', json_of_opt_str (kyc_verifiedAt kyc)),
                             (''expiresAt'', json_of_opt_str (kyc_expiresAt kyc))],
                 timestamp = now, requestId = rid \<rparr>, st)))"

subsection \<open>routes/limits.js\<close>

record limits_update_body =
  lb_dailyLimit :: "rat option"
  lb_monthlyLimit :: "rat option"

definition no_limit_patch :: limit_patch where
  "no_limit_patch = \<lparr>
     mp_accountId = None, mp_dailyLimit = None, mp_monthlyLimit = None, mp_dailyUsed = None,
     mp_monthlyUsed = None, mp_currency = None, mp_updatedAt = None \<rparr>"

text \<open>
  The first test is on truthiness (\<^verbatim>\<open>!dailyLimit && !monthlyLimit\<close>), the two later ones
  on being defined (\<^verbatim>\<open>!== undefined\<close>). The patch is built field by field in the order
  of the source; a negative limit returns at once (\<open>Inl\<close> carries its message).
\<close>

definition limits_update ::
  "string \<Rightarrow> string \<Rightarrow> string \<Rightarrow> limits_update_body \<Rightarrow> store
     \<Rightarrow> account_limit envelope \<times> store" where
  "limits_update now rid accountId body st =
     (if falsy_num (lb_dailyLimit body) \<and> falsy_num (lb_monthlyLimit body)
      then (ErrorEnvelope 400
              ''At least one limit must be provided: dailyLimit or monthlyLimit'' now rid, st)
      else
        (case (case lb_dailyLimit body of
                 None \<Rightarrow> Inr no_limit_patch
               | Some dailyLimit \<Rightarrow>
                   if dailyLimit < 0 then Inl ''dailyLimit must be >= 0''
                   else Inr (no_limit_patch\<lparr>mp_dailyLimit := Some dailyLimit\<rparr>)) of
           Inl msg \<Rightarrow> (ErrorEnvelope 400 msg now rid, st)
         | Inr updates1 \<Rightarrow>
             (case (case lb_monthlyLimit body of
                      None \<Rightarrow> Inr updates1
                    | Some monthlyLimit \<Rightarrow>
                        if monthlyLimit < 0 then Inl ''monthlyLimit must be >= 0''
                        else Inr (updates1\<lparr>mp_monthlyLimit := Some monthlyLimit\<rparr>)) of
                Inl msg \<Rightarrow> (ErrorEnvelope 400 msg now rid, st)
              | Inr updates \<Rightarrow>
                  (case updateAccountLimit now accountId updates st of
                     (limit, st') \<Rightarrow>
                       (SuccessEnvelope 200 limit ''Account limits updated'' now rid, st')))))"

text \<open>
  \<^verbatim>\<open>parseFloat\<close> and the conversion of a number to a string
  (\<^verbatim>\<open>${remaining}\<close> in a template) belong to the runtime; the handler takes them as
  arguments. The runtime's \<^verbatim>\<open>parseFloat\<close> is \<open>js_parseFloat\<close>; the conversion to a
  string bears on the text of the reason only. \<open>amount\<close> and \<open>period\<close> are the
  query-string parameters, \<open>None\<close> when absent; \<^verbatim>\<open>parseFloat(undefined)\<close> is
  \<^verbatim>\<open>NaN\<close>.
\<close>

definition limits_check_available ::
  "(string \<Rightarrow> jsnum) \<Rightarrow> (jsnum \<Rightarrow> string) \<Rightarrow> string \<Rightarrow> string \<Rightarrow> string
     \<Rightarrow> string option \<Rightarrow> string option \<Rightarrow> store \<Rightarrow> checker_response \<times> store" where
  "limits_check_available parseFloat numberToString now rid accountId amount period_given st =
     (let period = (case period_given of None \<Rightarrow> ''daily'' | Some p \<Rightarrow> p) in
      case getAccountLimit st accountId of
        None \<Rightarrow>
          (\<lparr> http_status = 200, result = False, reason = ''Account limits not found'',
             metadata = [(''accountId'', JStr accountId)],
             timestamp = now, requestId = rid \<rparr>, st)
      | Some limit \<Rightarrow>
          (let amountNum = (case amount of None \<Rightarrow> NaN | Some a \<Rightarrow> parseFloat a) in
           if falsy_str amount \<or> isNaN amountNum \<or> le_zero amountNum
           then
             (\<lparr> http_status = 200, result = False,
                reason = ''Amount must be provided and greater than 0'',
                metadata = [(''accountId'', JStr accountId)],
                timestamp = now, requestId = rid \<rparr>, st)
           else if period = ''daily'' then
             (let remaining = dsub (lim_dailyLimit limit) (lim_dailyUsed limit);
                  isAvailable = ge_js remaining amountNum
              in (\<lparr> http_status = 200, result = isAvailable,
                    reason =
                      (if isAvailable
                       then ''Daily limit available: '' @ numberToString remaining
                            @ '' '' @ lim_currency limit
                       else ''Insufficient daily limit. Available: ''
                            @ numberToString remaining @ '' '' @ lim_currency limit
                            @ '', Required: '' @ numberToString amountNum
                            @ '' '' @ lim_currency limit),
                    metadata = [(''accountId'', JStr (lim_accountId limit)),
                                (''period'', JStr period),
                                (''requestedAmount'', json_of_jsnum amountNum),
                                (''remaining'', json_of_jsnum remaining),
                                (''limit'', JNum (lim_dailyLimit limit)),
                                (''used'', JNum (lim_dailyUsed limit)),
                                (''currency'', JStr (lim_currency limit))],
                    timestamp = now, requestId = rid \<rparr>, st))
           else if period = ''monthly'' then
             (let remaining = dsub (lim_monthlyLimit limit) (lim_monthlyUsed limit);
                  isAvailable = ge_js remaining amountNum
              in (\<lparr> http_status = 200, result = isAvailable,
                    reason =
                      (if isAvailable
                       then ''Monthly limit available: '' @ numberToString remaining
                            @ '' '' @ lim_currency limit
                       else ''Insufficient monthly limit. Available: ''
                            @ numberToString remaining @ '' '' @ lim_currency limit
                            @ '', Required: '' @ numberToString amountNum
                            @ '' '' @ lim_currency limit),
                    metadata = [(''accountId'', JStr (lim_accountId limit)),
                                (''period'', JStr period),
                                (''requestedAmount'', json_of_jsnum amountNum),
                                (''remaining'', json_of_jsnum remaining),
                                (''limit'', JNum (lim_monthlyLimit limit)),
                                (''used'', JNum (lim_monthlyUsed limit)),
                                (''currency'', JStr (lim_currency limit))],
                    timestamp = now, requestId = rid \<rparr>, st))
           else
             (\<lparr> http_status = 200, result = False,
                reason = ''Period must be \"daily\" or \"monthly\"'',
                metadata = [(''accountId'', JStr accountId)],
                timestamp = now, requestId = rid \<rparr>, st)))"

section \<open>The seed data\<close>

text \<open>The arrays as the module initialises them.\<close>

definition seed_accounts :: "account list" where
  "seed_accounts = [
     \<lparr> acc_id = ''acc-001'', acc_customerId = ''cust-001'', acc_type = ''savings'',
       acc_currency = ''GHS'', acc_balance = 5000, acc_status = ''active'',
       acc_accountNumber = ''1234567890'', acc_createdAt = ''2024-01-15T10:00:00Z'',
       acc_updatedAt = ''2024-01-15T10:00:00Z'' \<rparr>,
     \<lparr> acc_id = ''acc-002'', acc_customerId = ''cust-002'', acc_type = ''current'',
       acc_currency = ''GHS'', acc_balance = 5001 / 2, acc_status = ''active'',
       acc_accountNumber = ''1234567891'', acc_createdAt = ''2024-01-16T11:00:00Z'',
       acc_updatedAt = ''2024-01-16T11:00:00Z'' \<rparr>,
     \<lparr> acc_id = ''acc-003'', acc_customerId = ''cust-001'', acc_type = ''savings'',
       acc_currency = ''GHS'', acc_balance = 10000, acc_status = ''suspended'',
       acc_accountNumber = ''1234567892'', acc_createdAt = ''2024-01-17T12:00:00Z'',
       acc_updatedAt = ''2024-01-20T14:00:00Z'' \<rparr>]"

definition seed_transactions :: "transaction list" where
  "seed_transactions = [
     \<lparr> txn_id = ''txn-001'', txn_accountId = ''acc-001'', txn_type = ''debit'',
       txn_amount = 100, txn_currency = ''GHS'', txn_description = ''Payment to merchant'',
       txn_status = ''cleared'', txn_counterparty = ''merchant-123'',
       txn_initiatedAt = ''2024-01-18T09:00:00Z'',
       txn_processedAt = Some ''2024-01-18T09:05:00Z'', txn_reference = ''REF-001'' \<rparr>,
     \<lparr> txn_id = ''txn-002'', txn_accountId = ''acc-001'', txn_type = ''credit'',
       txn_amount = 500, txn_currency = ''GHS'', txn_description = ''Salary deposit'',
       txn_status = ''cleared'', txn_counterparty = ''employer-456'',
       txn_initiatedAt = ''2024-01-19T10:00:00Z'',
       txn_processedAt = Some ''2024-01-19T10:02:00Z'', txn_reference = ''REF-002'' \<rparr>,
     \<lparr> txn_id = ''txn-003'', txn_accountId = ''acc-002'', txn_type = ''debit'',
       txn_amount = 50, txn_currency = ''GHS'', txn_description = ''Transfer to acc-001'',
       txn_status = ''pending'', txn_counterparty = ''acc-001'',
       txn_initiatedAt = ''2024-01-20T11:00:00Z'',
       txn_processedAt = None, txn_reference = ''REF-003'' \<rparr>]"

definition seed_payments :: "payment list" where
  "seed_payments = [
     \<lparr> pay_id = ''pay-001'', pay_accountId = ''acc-001'', pay_beneficiary = ''John Doe'',
       pay_beneficiaryAccount = ''9876543210'', pay_amount = 200, pay_currency = ''GHS'',
       pay_method = ''bank_transfer'', pay_status = ''completed'',
       pay_reference = ''PAY-REF-001'', pay_initiatedAt = ''2024-01-18T08:00:00Z'',
       pay_completedAt = Some ''2024-01-18T08:15:00Z'', pay_kycComplete = True,
       pay_sufficientBalance = True \<rparr>,
     \<lparr> pay_id = ''pay-002'', pay_accountId = ''acc-002'', pay_beneficiary = ''Jane Smith'',
       pay_beneficiaryAccount = ''9876543211'', pay_amount = 150, pay_currency = ''GHS'',
       pay_method = ''bank_transfer'', pay_status = ''pending'',
       pay_reference = ''PAY-REF-002'', pay_initiatedAt = ''2024-01-20T10:00:00Z'',
       pay_completedAt = None, pay_kycComplete = True,
       pay_sufficientBalance = False \<rparr>]"

definition seed_loans :: "loan list" where
  "seed_loans = [
     \<lparr> loan_id = ''loan-001'', loan_customerId = ''cust-001'', loan_accountId = ''acc-001'',
       loan_amount = 5000, loan_currency = ''GHS'', loan_purpose = ''Business expansion'',
       loan_tenure = 12, loan_interestRate = 17 / 2, loan_status = ''approved'',
       loan_creditScore = 750, loan_eligible = True,
       loan_appliedAt = ''2024-01-10T09:00:00Z'',
       loan_approvedAt = Some ''2024-01-12T14:00:00Z'',
       loan_disbursedAt = Some ''2024-01-13T10:00:00Z'',
       loan_monthlyPayment = Some (875 / 2), loan_remainingBalance = Some 5000,
       loan_rejectionReason = None, loan_collateral = None \<rparr>,
     \<lparr> loan_id = ''loan-002'', loan_customerId = ''cust-002'', loan_accountId = ''acc-002'',
       loan_amount = 3000, loan_currency = ''GHS'', loan_purpose = ''Personal use'',
       loan_tenure = 6, loan_interestRate = 10, loan_status = ''pending'',
       loan_creditScore = 680, loan_eligible = True,
       loan_appliedAt = ''2024-01-19T11:00:00Z'',
       loan_approvedAt = None, loan_disbursedAt = None,
       loan_monthlyPayment = Some 525, loan_remainingBalance = None,
       loan_rejectionReason = None, loan_collateral = None \<rparr>,
     \<lparr> loan_id = ''loan-003'', loan_customerId = ''cust-003'', loan_accountId = ''acc-003'',
       loan_amount = 10000, loan_currency = ''GHS'', loan_purpose = ''Home improvement'',
       loan_tenure = 24, loan_interestRate = 15 / 2, loan_status = ''rejected'',
       loan_creditScore = 600, loan_eligible = False,
       loan_appliedAt = ''2024-01-15T10:00:00Z'',
       loan_approvedAt = None, loan_disbursedAt = None,
       loan_monthlyPayment = None, loan_remainingBalance = None,
       loan_rejectionReason = Some ''Insufficient credit score'',
       loan_collateral = None \<rparr>]"

definition seed_airtimePurchases :: "airtime_purchase list" where
  "seed_airtimePurchases = [
     \<lparr> air_id = ''air-001'', air_accountId = ''acc-001'', air_phoneNumber = ''+233241234567'',
       air_amount = 10, air_currency = ''GHS'', air_provider = ''MTN'',
       air_status = ''completed'', air_transactionReference = ''AIR-REF-001'',
       air_purchasedAt = ''2024-01-18T12:00:00Z'',
       air_completedAt = Some ''2024-01-18T12:02:00Z'',
       air_deliveryStatus = ''delivered'' \<rparr>,
     \<lparr> air_id = ''air-002'', air_accountId = ''acc-002'', air_phoneNumber = ''+233241234568'',
       air_amount = 5, air_currency = ''GHS'', air_provider = ''Vodafone'',
       air_status = ''pending'', air_transactionReference = ''AIR-REF-002'',
       air_purchasedAt = ''2024-01-20T13:00:00Z'', air_completedAt = None,
       air_deliveryStatus = ''processing'' \<rparr>]"

definition seed_kycRecords :: "kyc_record list" where
  "seed_kycRecords = [
     \<lparr> kyc_customerId = ''cust-001'', kyc_status = ''approved'', kyc_level = ''tier2'',
       kyc_documents = [''id'', ''proof_of_address''], kyc_riskRating = ''low'',
       kyc_verifiedAt = Some ''2024-01-05T10:00:00Z'',
       kyc_expiresAt = Some ''2025-01-05T10:00:00Z'', kyc_pendingItems = [],
       kyc_rejectionReason = None \<rparr>,
     \<lparr> kyc_customerId = ''cust-002'', kyc_status = ''pending'', kyc_level = ''tier1'',
       kyc_documents = [''id''], kyc_riskRating = ''medium'', kyc_verifiedAt = None,
       kyc_expiresAt = None, kyc_pendingItems = [''proof_of_address'', ''income_statement''],
       kyc_rejectionReason = None \<rparr>,
     \<lparr> kyc_customerId = ''cust-003'', kyc_status = ''rejected'', kyc_level = ''tier1'',
       kyc_documents = [], kyc_riskRating = ''high'', kyc_verifiedAt = None,
       kyc_expiresAt = None, kyc_pendingItems = [''id'', ''proof_of_address''],
       kyc_rejectionReason = Some ''Invalid documents provided'' \<rparr>]"

definition seed_accountLimits :: "account_limit list" where
  "seed_accountLimits = [
     \<lparr> lim_accountId = ''acc-001'', lim_dailyLimit = 1000, lim_monthlyLimit = 10000,
       lim_dailyUsed = 250, lim_monthlyUsed = 1200, lim_currency = ''GHS'',
       lim_updatedAt = ''2024-01-20T10:00:00Z'' \<rparr>,
     \<lparr> lim_accountId = ''acc-002'', lim_dailyLimit = 500, lim_monthlyLimit = 5000,
       lim_dailyUsed = 150, lim_monthlyUsed = 800, lim_currency = ''GHS'',
       lim_updatedAt = ''2024-01-20T10:00:00Z'' \<rparr>]"

definition seed :: store where
  "seed = \<lparr> accounts = seed_accounts, transactions = seed_transactions,
            payments = seed_payments, loans = seed_loans,
            airtimePurchases = seed_airtimePurchases, kycRecords = seed_kycRecords,
            accountLimits = seed_accountLimits \<rparr>"

text \<open>
  Stand-ins for the runtime's \<^verbatim>\<open>parseFloat\<close> and number formatting, which agree with it
  on the strings and numbers the examples use.
\<close>

definition parseFloat_sample :: "string \<Rightarrow> jsnum" where
  "parseFloat_sample s =
     (if s = ''500'' then Fin 500 else if s = ''900'' then Fin 900
      else if s = ''-5'' then Fin (- 5) else NaN)"

definition numberToString_sample :: "jsnum \<Rightarrow> string" where
  "numberToString_sample x =
     (if x = Fin 500 then ''500'' else if x = Fin 750 then ''750''
      else if x = Fin 900 then ''900'' else if x = Fin 8800 then ''8800'' else ''NaN'')"

text \<open>Two bodies for the initiate route.\<close>

definition initiate_from_acc_001 :: initiate_body where
  "initiate_from_acc_001 = \<lparr> ib_accountId = Some ''acc-001'', ib_beneficiary = Some ''Ama Mensah'',
       ib_beneficiaryAccount = Some ''5550001234'', ib_amount = Some 6000,
       ib_currency = Some ''GHS'', ib_method = None, ib_reference = None \<rparr>"

definition initiate_from_acc_999 :: initiate_body where
  "initiate_from_acc_999 = initiate_from_acc_001\<lparr>ib_accountId := Some ''acc-999''\<rparr>"

text \<open>The seeded pending loan, with a \<open>disbursedAt\<close> already written.\<close>

definition loan_002_disbursed :: loan where
  "loan_002_disbursed = (seed_loans ! 1)\<lparr>loan_disbursedAt := Some ''2024-01-21T08:00:00Z''\<rparr>"

text \<open>
  The seeded payments after \<open>pay-002\<close> has been cancelled, and a store in which
  \<open>pay-001\<close> fails all three clauses of the readiness check.
\<close>

definition store_pay_002_cancelled :: store where
  "store_pay_002_cancelled =
     snd (payments_cancel ''2024-02-01T08:00:00.000Z'' ''req-0'' ''pay-002'' seed)"

definition payment_failing_all :: payment where
  "payment_failing_all =
     (seed_payments ! 0)\<lparr>pay_kycComplete := False, pay_sufficientBalance := False\<rparr>"

definition store_failing_all :: store where
  "store_failing_all = seed\<lparr>payments := [payment_failing_all, seed_payments ! 1]\<rparr>"




section \<open>Lookup and update of an array\<close>

lemma findIndex_None_iff: "findIndex P xs = None \<longleftrightarrow> find P xs = None"
  by (induction xs) auto

lemma find_Some_holds: "find P xs = Some x \<Longrightarrow> P x"
  by (induction xs) (auto split: if_splits)

lemma find_Some_findIndex:
  "find P xs = Some x \<Longrightarrow> \<exists>i. findIndex P xs = Some i \<and> i < length xs \<and> xs ! i = x"
  by (induction xs) (auto split: if_splits)

text \<open>Writing at the index \<^verbatim>\<open>findIndex\<close> gave: the record found afterwards is the one written.\<close>

lemma find_list_update:
  "findIndex P xs = Some i \<Longrightarrow> P y \<Longrightarrow> find P (xs[i := y]) = Some y"
proof (induction xs arbitrary: i)
  case Nil
  then show ?case by simp
next
  case (Cons x xs)
  show ?case
  proof (cases "P x")
    case True
    with Cons.prems show ?thesis by simp
  next
    case False
    with Cons.prems obtain j where j: "findIndex P xs = Some j" "i = Suc j"
      by auto
    with Cons.IH [OF j(1) Cons.prems(2)] False show ?thesis by simp
  qed
qed

section \<open>Evaluating the numbers of the runtime\<close>

text \<open>
  Subtractions and parses the examples use. The second and third are inexact in binary:
  250.1 and 0.1 denote the doubles nearest to them, and \<^verbatim>\<open>250.1 - 250\<close> is
  0.09999999999999432, which is less than the double 0.1; \<^verbatim>\<open>1000.1 - 0.7\<close> is rounded.
\<close>

lemma dsub_1000_250: "dsub 1000 250 = Fin 750"
  by code_simp


lemma round_double_250_1: "round_double (2501 / 10) = Fin (8799611459416883 / 35184372088832)"
  by code_simp










text \<open>More literals: prefixes, fractions, exponents, signs and infinities.\<close>

lemma js_parseFloat_literals:
  "map js_parseFloat
     [[], ''  12.5e1x'', ''.5'', ''5.'', ''.'', ''-'', ''+.5e1'', ''1e'', ''1e+'',
      ''-Infinityx'', ''infinity'', ''0x10'', ''e5'', ''-0'', ''1.5.3'', ''1e-2'']
   = [NaN, Fin 125, Fin (1 / 2), Fin 5, NaN, NaN, Fin 5, Fin 1, Fin 1,
      NegInf, NaN, Fin 0, NaN, Fin 0, Fin (3 / 2),
      Fin (5764607523034235 / 576460752303423488)]"
  by code_simp

section \<open>Payment readiness\<close>

lemma seed_pay_001: "getPaymentById seed ''pay-001'' = Some (seed_payments ! 0)"
  by (simp add: getPaymentById_def seed_def seed_payments_def)

lemma seed_pay_002: "getPaymentById seed ''pay-002'' = Some (seed_payments ! 1)"
  by (simp add: getPaymentById_def seed_def seed_payments_def)

lemma store_failing_all_pay_001:
  "getPaymentById store_failing_all ''pay-001'' = Some payment_failing_all"
  by (simp add: getPaymentById_def store_failing_all_def payment_failing_all_def
      seed_payments_def)

lemma store_pay_002_cancelled_pay_002:
  "getPaymentById store_pay_002_cancelled ''pay-002''
     = Some ((seed_payments ! 1)\<lparr>pay_status := ''cancelled''\<rparr>)"
  by code_simp

text \<open>
  Claim C3. For a payment that exists, check-ready answers
  \<open>kycComplete \<and> sufficientBalance \<and> status = pending\<close>. When the answer is false the
  reason is the texts of exactly the failing clauses, in the order kyc, balance, status,
  joined by a comma and a space. A payment with \<open>kycComplete\<close> true, \<open>sufficientBalance\<close>
  false and status pending gets the reason \<open>Insufficient balance\<close> and nothing more. The
  reason is written out for each of the seven ways of failing: one clause alone, each pair
  and all three, the status clause ending with the status of the payment.
\<close>

theorem check_ready_verdict:
  "getPaymentById st paymentId = Some p \<Longrightarrow>
     result (fst (payments_check_ready now rid paymentId st))
       = (pay_kycComplete p \<and> pay_sufficientBalance p \<and> pay_status p = ''pending'')
   \<and> (\<not> result (fst (payments_check_ready now rid paymentId st)) \<longrightarrow>
        reason (fst (payments_check_ready now rid paymentId st))
          = join '', '' (map snd (filter fst
              [(\<not> pay_kycComplete p, ''KYC not complete''),
               (\<not> pay_sufficientBalance p, ''Insufficient balance''),
               (pay_status p \<noteq> ''pending'', ''Payment status is '' @ pay_status p)])))
   \<and> (pay_kycComplete p \<and> \<not> pay_sufficientBalance p \<and> pay_status p = ''pending'' \<longrightarrow>
        \<not> result (fst (payments_check_ready now rid paymentId st))
        \<and> reason (fst (payments_check_ready now rid paymentId st)) = ''Insufficient balance'')
   \<and> (\<not> pay_kycComplete p \<and> pay_sufficientBalance p \<and> pay_status p = ''pending'' \<longrightarrow>
        reason (fst (payments_check_ready now rid paymentId st)) = ''KYC not complete'')
   \<and> (pay_kycComplete p \<and> pay_sufficientBalance p \<and> pay_status p \<noteq> ''pending'' \<longrightarrow>
        reason (fst (payments_check_ready now rid paymentId st))
          = ''Payment status is '' @ pay_status p)
   \<and> (\<not> pay_kycComplete p \<and> \<not> pay_sufficientBalance p \<and> pay_status p = ''pending'' \<longrightarrow>
        reason (fst (payments_check_ready now rid paymentId st))
          = ''KYC not complete, Insufficient balance'')
   \<and> (\<not> pay_kycComplete p \<and> pay_sufficientBalance p \<and> pay_status p \<noteq> ''pending'' \<longrightarrow>
        reason (fst (payments_check_ready now rid paymentId st))
          = ''KYC not complete, Payment status is '' @ pay_status p)
   \<and> (pay_kycComplete p \<and> \<not> pay_sufficientBalance p \<and> pay_status p \<noteq> ''pending'' \<longrightarrow>
        reason (fst (payments_check_ready now rid paymentId st))
          = ''Insufficient balance, Payment status is '' @ pay_status p)
   \<and> (\<not> pay_kycComplete p \<and> \<not> pay_sufficientBalance p \<and> pay_status p \<noteq> ''pending'' \<longrightarrow>
        reason (fst (payments_check_ready now rid paymentId st))
          = ''KYC not complete, Insufficient balance, Payment status is '' @ pay_status p)"
  by (simp add: payments_check_ready_def Let_def)

text \<open>
  The seeded payment \<open>pay-002\<close> fails on the balance alone and \<open>pay-001\<close> on the status
  alone; once cancelled, \<open>pay-002\<close> fails on the balance and the status; the third store
  holds a payment that fails all three clauses.
\<close>

theorem check_ready_verdict_witness:
  "getPaymentById seed ''pay-002'' = Some (seed_payments ! 1)
   \<and> \<not> result (fst (payments_check_ready ''2024-02-01T09:00:00.000Z'' ''req-1'' ''pay-002'' seed))
   \<and> reason (fst (payments_check_ready ''2024-02-01T09:00:00.000Z'' ''req-1'' ''pay-002'' seed))
       = ''Insufficient balance''
   \<and> \<not> result (fst (payments_check_ready ''2024-02-01T09:00:00.000Z'' ''req-1'' ''pay-001'' seed))
   \<and> reason (fst (payments_check_ready ''2024-02-01T09:00:00.000Z'' ''req-1'' ''pay-001'' seed))
       = ''Payment status is completed''
   \<and> \<not> result (fst (payments_check_ready ''2024-02-01T09:00:00.000Z'' ''req-1'' ''pay-002''
                      store_pay_002_cancelled))
   \<and> reason (fst (payments_check_ready ''2024-02-01T09:00:00.000Z'' ''req-1'' ''pay-002''
                    store_pay_002_cancelled))
       = ''Insufficient balance, Payment status is cancelled''
   \<and> \<not> result (fst (payments_check_ready ''2024-02-01T09:00:00.000Z'' ''req-1'' ''pay-001''
                      store_failing_all))
   \<and> reason (fst (payments_check_ready ''2024-02-01T09:00:00.000Z'' ''req-1'' ''pay-001''
                    store_failing_all))
       = ''KYC not complete, Insufficient balance, Payment status is completed''"
proof -
  have one: "\<not> result (fst (payments_check_ready ''2024-02-01T09:00:00.000Z'' ''req-1'' ''pay-002'' seed))
   \<and> reason (fst (payments_check_ready ''2024-02-01T09:00:00.000Z'' ''req-1'' ''pay-002'' seed))
       = ''Insufficient balance''"
    using check_ready_verdict [OF seed_pay_002, where now = "''2024-02-01T09:00:00.000Z''"
        and rid = "''req-1''", THEN conjunct2, THEN conjunct2, THEN conjunct1]
    by (simp add: seed_payments_def)
  have status: "\<not> result (fst (payments_check_ready ''2024-02-01T09:00:00.000Z'' ''req-1'' ''pay-001'' seed))
   \<and> reason (fst (payments_check_ready ''2024-02-01T09:00:00.000Z'' ''req-1'' ''pay-001'' seed))
       = ''Payment status is completed''"
    using check_ready_verdict [OF seed_pay_001, where now = "''2024-02-01T09:00:00.000Z''"
        and rid = "''req-1''", THEN conjunct1]
      check_ready_verdict [OF seed_pay_001, where now = "''2024-02-01T09:00:00.000Z''"
        and rid = "''req-1''", THEN conjunct2, THEN conjunct2, THEN conjunct2, THEN conjunct2,
        THEN conjunct1]
    by (simp add: seed_payments_def)
  have two: "\<not> result (fst (payments_check_ready ''2024-02-01T09:00:00.000Z'' ''req-1'' ''pay-002''
                      store_pay_002_cancelled))
   \<and> reason (fst (payments_check_ready ''2024-02-01T09:00:00.000Z'' ''req-1'' ''pay-002''
                    store_pay_002_cancelled))
       = ''Insufficient balance, Payment status is cancelled''"
    using check_ready_verdict [OF store_pay_002_cancelled_pay_002,
        where now = "''2024-02-01T09:00:00.000Z''" and rid = "''req-1''", THEN conjunct1]
      check_ready_verdict [OF store_pay_002_cancelled_pay_002,
        where now = "''2024-02-01T09:00:00.000Z''" and rid = "''req-1''", THEN conjunct2,
        THEN conjunct2, THEN conjunct2, THEN conjunct2, THEN conjunct2, THEN conjunct2,
        THEN conjunct2, THEN conjunct1]
    by (simp add: seed_payments_def)
  have three: "\<not> result (fst (payments_check_ready ''2024-02-01T09:00:00.000Z'' ''req-1'' ''pay-001''
                      store_failing_all))
   \<and> reason (fst (payments_check_ready ''2024-02-01T09:00:00.000Z'' ''req-1'' ''pay-001''
                    store_failing_all))
       = ''KYC not complete, Insufficient balance, Payment status is completed''"
    using check_ready_verdict [OF store_failing_all_pay_001,
        where now = "''2024-02-01T09:00:00.000Z''" and rid = "''req-1''", THEN conjunct1]
      check_ready_verdict [OF store_failing_all_pay_001,
        where now = "''2024-02-01T09:00:00.000Z''" and rid = "''req-1''", THEN conjunct2,
        THEN conjunct2, THEN conjunct2, THEN conjunct2, THEN conjunct2, THEN conjunct2,
        THEN conjunct2, THEN conjunct2]
    by (simp add: payment_failing_all_def seed_payments_def)
  from seed_pay_002 one status two three show ?thesis
    by blast
qed

section \<open>Cancelling a payment\<close>

lemma getPaymentById_index:
  assumes "getPaymentById st i = Some p"
  shows "\<exists>index. findIndex (\<lambda>pay. pay_id pay = i) (payments st) = Some index
           \<and> payments st ! index = p \<and> pay_id p = i"
  using assms find_Some_findIndex [of "\<lambda>pay. pay_id pay = i" "payments st" p]
    find_Some_holds [of "\<lambda>pay. pay_id pay = i" "payments st" p]
  unfolding getPaymentById_def by auto

lemma cancel_patch:
  "merge_payment p (no_payment_patch\<lparr>pp_status := Some ''cancelled''\<rparr>)
     = p\<lparr>pay_status := ''cancelled''\<rparr>"
  by (simp add: merge_payment_def no_payment_patch_def spread_def)

lemma cancel_refused:
  assumes "getPaymentById st paymentId = Some p" and "pay_status p = ''completed''"
  shows "payments_cancel now rid paymentId st
           = (ErrorEnvelope 400 ''Cannot cancel a completed payment'' now rid, st)"
  using assms by (simp add: payments_cancel_def)

lemma cancel_performed:
  assumes "getPaymentById st paymentId = Some p" and "pay_status p \<noteq> ''completed''"
  shows "fst (payments_cancel now rid paymentId st)
           = SuccessEnvelope 200 (Some (p\<lparr>pay_status := ''cancelled''\<rparr>))
               ''Payment cancelled'' now rid
         \<and> getPaymentById (snd (payments_cancel now rid paymentId st)) paymentId
           = Some (p\<lparr>pay_status := ''cancelled''\<rparr>)"
proof -
  obtain index where ix: "findIndex (\<lambda>pay. pay_id pay = paymentId) (payments st) = Some index"
    "payments st ! index = p" "pay_id p = paymentId"
    using getPaymentById_index [OF assms(1)] by blast
  have upd: "updatePayment now paymentId (no_payment_patch\<lparr>pp_status := Some ''cancelled''\<rparr>) st
     = (Some (p\<lparr>pay_status := ''cancelled''\<rparr>),
        st\<lparr>payments := (payments st)[index := p\<lparr>pay_status := ''cancelled''\<rparr>]\<rparr>)"
    using ix by (simp add: updatePayment_def Let_def cancel_patch)
  have "find (\<lambda>pay. pay_id pay = paymentId)
          ((payments st)[index := p\<lparr>pay_status := ''cancelled''\<rparr>])
          = Some (p\<lparr>pay_status := ''cancelled''\<rparr>)"
    using find_list_update [OF ix(1), of "p\<lparr>pay_status := ''cancelled''\<rparr>"] ix(3) by simp
  then show ?thesis
    using assms upd by (simp add: payments_cancel_def getPaymentById_def)
qed

text \<open>
  Claim C1 says that cancel fails for every payment that is not pending, an already
  cancelled one included. The handler's guard tests for \<open>completed\<close> only. Cancelling the
  seeded pending payment \<open>pay-002\<close> leaves it cancelled, and cancelling it a second time
  is answered with the success envelope again.
\<close>

theorem cancel_cancelled_counterexample:
  "map_option pay_status
     (getPaymentById (snd (payments_cancel ''2024-02-01T09:00:00.000Z'' ''req-1'' ''pay-002'' seed))
        ''pay-002'') = Some ''cancelled''
   \<and> fst (payments_cancel ''2024-02-01T09:00:05.000Z'' ''req-2'' ''pay-002''
            (snd (payments_cancel ''2024-02-01T09:00:00.000Z'' ''req-1'' ''pay-002'' seed)))
       = SuccessEnvelope 200 (Some ((seed_payments ! 1)\<lparr>pay_status := ''cancelled''\<rparr>))
           ''Payment cancelled'' ''2024-02-01T09:00:05.000Z'' ''req-2''"
  by (simp add: payments_cancel_def updatePayment_def Let_def no_payment_patch_def
      getPaymentById_def seed_def seed_payments_def merge_payment_def spread_def falsy_str_def)

text \<open>
  Claim C1 as amended. Cancellation is refused for a completed payment only: it is answered
  with the status 400 and the message \<open>Cannot cancel a completed payment\<close>, and the store
  is left as it was. A payment in any other status, pending or already cancelled, is
  cancelled: the answer is the success envelope and the stored payment has the status
  \<open>cancelled\<close> afterwards.
\<close>

theorem cancel_guard:
  "getPaymentById st paymentId = Some p \<Longrightarrow>
     (pay_status p = ''completed'' \<longrightarrow>
        payments_cancel now rid paymentId st
          = (ErrorEnvelope 400 ''Cannot cancel a completed payment'' now rid, st))
   \<and> (pay_status p \<noteq> ''completed'' \<longrightarrow>
        fst (payments_cancel now rid paymentId st)
          = SuccessEnvelope 200 (Some (p\<lparr>pay_status := ''cancelled''\<rparr>))
              ''Payment cancelled'' now rid
        \<and> getPaymentById (snd (payments_cancel now rid paymentId st)) paymentId
          = Some (p\<lparr>pay_status := ''cancelled''\<rparr>))"
  using cancel_refused cancel_performed by blast

theorem cancel_guard_witness:
  "getPaymentById seed ''pay-001'' = Some (seed_payments ! 0)
   \<and> pay_status (seed_payments ! 0) = ''completed''
   \<and> payments_cancel ''2024-02-01T09:00:00.000Z'' ''req-1'' ''pay-001'' seed
       = (ErrorEnvelope 400 ''Cannot cancel a completed payment''
            ''2024-02-01T09:00:00.000Z'' ''req-1'', seed)
   \<and> getPaymentById seed ''pay-002'' = Some (seed_payments ! 1)
   \<and> pay_status (seed_payments ! 1) = ''pending''
   \<and> fst (payments_cancel ''2024-02-01T09:00:00.000Z'' ''req-1'' ''pay-002'' seed)
       = SuccessEnvelope 200 (Some ((seed_payments ! 1)\<lparr>pay_status := ''cancelled''\<rparr>))
           ''Payment cancelled'' ''2024-02-01T09:00:00.000Z'' ''req-1''
   \<and> getPaymentById (snd (payments_cancel ''2024-02-01T09:00:00.000Z'' ''req-1'' ''pay-002'' seed))
         ''pay-002''
       = Some ((seed_payments ! 1)\<lparr>pay_status := ''cancelled''\<rparr>)"
  using cancel_guard [OF seed_pay_001, of "''2024-02-01T09:00:00.000Z''" "''req-1''"]
    cancel_guard [OF seed_pay_002, of "''2024-02-01T09:00:00.000Z''" "''req-1''"]
  by (simp add: seed_pay_001 seed_pay_002 seed_payments_def)

section \<open>Approving and rejecting a loan\<close>

lemma getLoanById_index:
  assumes "getLoanById st i = Some l"
  shows "\<exists>index. findIndex (\<lambda>loan. loan_id loan = i) (loans st) = Some index
           \<and> loans st ! index = l \<and> loan_id l = i"
  using assms find_Some_findIndex [of "\<lambda>loan. loan_id loan = i" "loans st" l]
    find_Some_holds [of "\<lambda>loan. loan_id loan = i" "loans st" l]
  unfolding getLoanById_def by auto

lemma seed_loan_001: "getLoanById seed ''loan-001'' = Some (seed_loans ! 0)"
  by (simp add: getLoanById_def seed_def seed_loans_def)

lemma seed_loan_002: "getLoanById seed ''loan-002'' = Some (seed_loans ! 1)"
  by (simp add: getLoanById_def seed_def seed_loans_def)

text \<open>
  Claim C4. For a loan whose status is not pending, approve and reject are both answered
  with an error (status 400, the message naming the loan's status) and the store is
  returned as it was, so the loan's \<open>status\<close>, \<open>approvedAt\<close> and \<open>rejectionReason\<close> are
  unchanged. The handlers signal the conflict of the action with the loan's status by the
  HTTP status 400.
\<close>

theorem loan_guard:
  "getLoanById st loanId = Some l \<Longrightarrow> loan_status l \<noteq> ''pending'' \<Longrightarrow>
     loans_approve now rid loanId st
       = (ErrorEnvelope 400 (''Cannot approve loan with status: '' @ loan_status l) now rid, st)
   \<and> loans_reject now rid loanId reason_given st
       = (ErrorEnvelope 400 (''Cannot reject loan with status: '' @ loan_status l) now rid, st)
   \<and> getLoanById (snd (loans_approve now rid loanId st)) loanId = Some l
   \<and> getLoanById (snd (loans_reject now rid loanId reason_given st)) loanId = Some l"
  by (simp add: loans_approve_def loans_reject_def)

text \<open>The seeded loan \<open>loan-001\<close> is approved.\<close>

theorem loan_guard_witness:
  "getLoanById seed ''loan-001'' = Some (seed_loans ! 0)
   \<and> loan_status (seed_loans ! 0) = ''approved''
   \<and> loans_approve ''2024-02-01T09:00:00.000Z'' ''req-1'' ''loan-001'' seed
       = (ErrorEnvelope 400 ''Cannot approve loan with status: approved''
            ''2024-02-01T09:00:00.000Z'' ''req-1'', seed)
   \<and> loans_reject ''2024-02-01T09:00:00.000Z'' ''req-1'' ''loan-001'' (Some ''late'') seed
       = (ErrorEnvelope 400 ''Cannot reject loan with status: approved''
            ''2024-02-01T09:00:00.000Z'' ''req-1'', seed)"
  using loan_guard [OF seed_loan_001, of "''2024-02-01T09:00:00.000Z''" "''req-1''" "Some ''late''"]
  by (simp add: seed_loan_001 seed_loans_def)

lemma approve_patch:
  "merge_loan l (no_loan_patch\<lparr>lp_status := Some ''approved'', lp_disbursedAt := Some (Some now),
       lp_remainingBalance := Some (Some a)\<rparr>)
     = l\<lparr>loan_status := ''approved'', loan_disbursedAt := Some now,
         loan_remainingBalance := Some a\<rparr>"
  by (simp add: merge_loan_def no_loan_patch_def spread_def)

text \<open>
  Claim C8. Approving a pending loan sets its status to \<open>approved\<close>, its
  \<open>remainingBalance\<close> to its amount and its \<open>disbursedAt\<close> to the time of the approval,
  whatever \<open>disbursedAt\<close> held before: the handler passes the timestamp in the patch, so
  the merge writes it and the rule for the status \<open>disbursed\<close> plays no part. The record
  returned is the record stored. (\<open>approvedAt\<close> is stamped by the store when it is not
  yet set.)
\<close>

theorem approve_pending:
  "getLoanById st loanId = Some l \<Longrightarrow> loan_status l = ''pending'' \<Longrightarrow>
     fst (loans_approve now rid loanId st)
       = SuccessEnvelope 200
           (Some (l\<lparr>loan_status := ''approved'',
                    loan_disbursedAt := Some now,
                    loan_remainingBalance := Some (loan_amount l),
                    loan_approvedAt :=
                      (if falsy_str (loan_approvedAt l) then Some now else loan_approvedAt l)\<rparr>))
           ''Loan approved and disbursed'' now rid
   \<and> getLoanById (snd (loans_approve now rid loanId st)) loanId
       = Some (l\<lparr>loan_status := ''approved'',
                 loan_disbursedAt := Some now,
                 loan_remainingBalance := Some (loan_amount l),
                 loan_approvedAt :=
                   (if falsy_str (loan_approvedAt l) then Some now else loan_approvedAt l)\<rparr>)"
proof -
  assume found: "getLoanById st loanId = Some l" and pending: "loan_status l = ''pending''"
  let ?l' = "l\<lparr>loan_status := ''approved'', loan_disbursedAt := Some now,
                 loan_remainingBalance := Some (loan_amount l),
                 loan_approvedAt :=
                   (if falsy_str (loan_approvedAt l) then Some now else loan_approvedAt l)\<rparr>"
  obtain index where ix: "findIndex (\<lambda>loan. loan_id loan = loanId) (loans st) = Some index"
    "loans st ! index = l" "loan_id l = loanId"
    using getLoanById_index [OF found] by blast
  have upd: "updateLoan now loanId
       (no_loan_patch\<lparr>lp_status := Some ''approved'', lp_disbursedAt := Some (Some now),
          lp_remainingBalance := Some (Some (loan_amount l))\<rparr>) st
     = (Some ?l', st\<lparr>loans := (loans st)[index := ?l']\<rparr>)"
    using ix by (simp add: updateLoan_def Let_def approve_patch)
  have "find (\<lambda>loan. loan_id loan = loanId) ((loans st)[index := ?l']) = Some ?l'"
    using find_list_update [OF ix(1), of ?l'] ix(3) by simp
  then show ?thesis
    using found pending upd by (simp add: loans_approve_def getLoanById_def)
qed

lemma loan_002_disbursed_found:
  "getLoanById (seed\<lparr>loans := [loan_002_disbursed]\<rparr>) ''loan-002'' = Some loan_002_disbursed"
  by (simp add: getLoanById_def loan_002_disbursed_def seed_loans_def)

text \<open>
  The seeded loan \<open>loan-002\<close> is pending, with no \<open>disbursedAt\<close>; the second store holds
  it with a \<open>disbursedAt\<close> already set, which the approval replaces.
\<close>

theorem approve_pending_witness:
  "getLoanById seed ''loan-002'' = Some (seed_loans ! 1)
   \<and> loan_status (seed_loans ! 1) = ''pending''
   \<and> map_option (\<lambda>l. (loan_status l, loan_remainingBalance l, loan_disbursedAt l))
        (getLoanById (snd (loans_approve ''2024-02-01T09:00:00.000Z'' ''req-1'' ''loan-002'' seed))
           ''loan-002'')
       = Some (''approved'', Some 3000, Some ''2024-02-01T09:00:00.000Z'')
   \<and> getLoanById (seed\<lparr>loans := [loan_002_disbursed]\<rparr>) ''loan-002'' = Some loan_002_disbursed
   \<and> loan_status loan_002_disbursed = ''pending''
   \<and> loan_disbursedAt loan_002_disbursed = Some ''2024-01-21T08:00:00Z''
   \<and> map_option (\<lambda>l. (loan_status l, loan_remainingBalance l, loan_disbursedAt l))
        (getLoanById (snd (loans_approve ''2024-02-01T09:00:00.000Z'' ''req-1'' ''loan-002''
                             (seed\<lparr>loans := [loan_002_disbursed]\<rparr>))) ''loan-002'')
       = Some (''approved'', Some 3000, Some ''2024-02-01T09:00:00.000Z'')"
proof -
  have a: "loan_status (seed_loans ! 1) = ''pending''"
    by (simp add: seed_loans_def)
  have b: "loan_status loan_002_disbursed = ''pending''"
    by (simp add: loan_002_disbursed_def seed_loans_def)
  have c: "loan_disbursedAt loan_002_disbursed = Some ''2024-01-21T08:00:00Z''"
    by (simp add: loan_002_disbursed_def)
  have r1: "map_option (\<lambda>l. (loan_status l, loan_remainingBalance l, loan_disbursedAt l))
        (getLoanById (snd (loans_approve ''2024-02-01T09:00:00.000Z'' ''req-1'' ''loan-002'' seed))
           ''loan-002'')
       = Some (''approved'', Some 3000, Some ''2024-02-01T09:00:00.000Z'')"
    using approve_pending [OF seed_loan_002 a, of "''2024-02-01T09:00:00.000Z''" "''req-1''"]
    by (simp add: seed_loans_def)
  have r2: "map_option (\<lambda>l. (loan_status l, loan_remainingBalance l, loan_disbursedAt l))
        (getLoanById (snd (loans_approve ''2024-02-01T09:00:00.000Z'' ''req-1'' ''loan-002''
                             (seed\<lparr>loans := [loan_002_disbursed]\<rparr>))) ''loan-002'')
       = Some (''approved'', Some 3000, Some ''2024-02-01T09:00:00.000Z'')"
    using approve_pending [OF loan_002_disbursed_found b, of "''2024-02-01T09:00:00.000Z''" "''req-1''"]
    by (simp add: loan_002_disbursed_def seed_loans_def)
  from seed_loan_002 a r1 loan_002_disbursed_found b c r2 show ?thesis
    by blast
qed

section \<open>Terminal timestamps\<close>

lemma getAirtimePurchaseById_index:
  assumes "getAirtimePurchaseById st i = Some p"
  shows "\<exists>index. findIndex (\<lambda>p. air_id p = i) (airtimePurchases st) = Some index
           \<and> airtimePurchases st ! index = p \<and> air_id p = i"
  using assms find_Some_findIndex [of "\<lambda>p. air_id p = i" "airtimePurchases st" p]
    find_Some_holds [of "\<lambda>p. air_id p = i" "airtimePurchases st" p]
  unfolding getAirtimePurchaseById_def by auto

lemma getKycRecord_index:
  assumes "getKycRecord st c = Some k"
  shows "\<exists>index. findIndex (\<lambda>kyc. kyc_customerId kyc = c) (kycRecords st) = Some index
           \<and> kycRecords st ! index = k \<and> kyc_customerId k = c"
  using assms find_Some_findIndex [of "\<lambda>kyc. kyc_customerId kyc = c" "kycRecords st" k]
    find_Some_holds [of "\<lambda>kyc. kyc_customerId kyc = c" "kycRecords st" k]
  unfolding getKycRecord_def by auto

text \<open>An update of a record that exists returns the record as it stores it, at the index of the record found.\<close>

lemma updateLoan_returns_stored:
  assumes "getLoanById st i = Some l"
  shows "\<exists>index. findIndex (\<lambda>loan. loan_id loan = i) (loans st) = Some index
           \<and> fst (updateLoan now i u st) = Some (loans (snd (updateLoan now i u st)) ! index)"
proof -
  obtain index where ix: "findIndex (\<lambda>loan. loan_id loan = i) (loans st) = Some index"
    "index < length (loans st)"
    using assms find_Some_findIndex [of "\<lambda>loan. loan_id loan = i" "loans st" l]
    unfolding getLoanById_def by auto
  then show ?thesis
    by (simp add: updateLoan_def Let_def)
qed

lemma updatePayment_returns_stored:
  assumes "getPaymentById st i = Some p"
  shows "\<exists>index. findIndex (\<lambda>pay. pay_id pay = i) (payments st) = Some index
           \<and> fst (updatePayment now i u st)
               = Some (payments (snd (updatePayment now i u st)) ! index)"
proof -
  obtain index where ix: "findIndex (\<lambda>pay. pay_id pay = i) (payments st) = Some index"
    "index < length (payments st)"
    using assms find_Some_findIndex [of "\<lambda>pay. pay_id pay = i" "payments st" p]
    unfolding getPaymentById_def by auto
  then show ?thesis
    by (simp add: updatePayment_def Let_def)
qed

lemma updateAirtimePurchase_returns_stored:
  assumes "getAirtimePurchaseById st i = Some p"
  shows "\<exists>index. findIndex (\<lambda>p. air_id p = i) (airtimePurchases st) = Some index
           \<and> fst (updateAirtimePurchase now i u st)
               = Some (airtimePurchases (snd (updateAirtimePurchase now i u st)) ! index)"
proof -
  obtain index where ix: "findIndex (\<lambda>p. air_id p = i) (airtimePurchases st) = Some index"
    "index < length (airtimePurchases st)"
    using assms find_Some_findIndex [of "\<lambda>p. air_id p = i" "airtimePurchases st" p]
    unfolding getAirtimePurchaseById_def by auto
  then show ?thesis
    by (simp add: updateAirtimePurchase_def Let_def)
qed

lemma updateKycRecord_returns_stored:
  assumes "getKycRecord st c = Some k"
  shows "\<exists>index. findIndex (\<lambda>kyc. kyc_customerId kyc = c) (kycRecords st) = Some index
           \<and> fst (updateKycRecord now expiry c u st)
               = kycRecords (snd (updateKycRecord now expiry c u st)) ! index"
proof -
  obtain index where ix: "findIndex (\<lambda>kyc. kyc_customerId kyc = c) (kycRecords st) = Some index"
    "index < length (kycRecords st)"
    using assms find_Some_findIndex [of "\<lambda>kyc. kyc_customerId kyc = c" "kycRecords st" k]
    unfolding getKycRecord_def by auto
  then show ?thesis
    by (simp add: updateKycRecord_def Let_def)
qed

lemma updateLoan_approvedAt:
  assumes "getLoanById st i = Some l" and "lp_status u = Some ''approved''"
    and "lp_approvedAt u = None"
  shows "map_option loan_approvedAt (fst (updateLoan now i u st))
           = Some (if falsy_str (loan_approvedAt l) then Some now else loan_approvedAt l)"
proof -
  obtain index where ix: "findIndex (\<lambda>loan. loan_id loan = i) (loans st) = Some index"
    "loans st ! index = l"
    using getLoanById_index [OF assms(1)] by blast
  show ?thesis
    using ix assms(2,3) by (simp add: updateLoan_def Let_def merge_loan_def spread_def)
qed

lemma updateLoan_disbursedAt:
  assumes "getLoanById st i = Some l" and "lp_status u = Some ''disbursed''"
    and "lp_disbursedAt u = None"
  shows "map_option loan_disbursedAt (fst (updateLoan now i u st))
           = Some (if falsy_str (loan_disbursedAt l) then Some now else loan_disbursedAt l)"
proof -
  obtain index where ix: "findIndex (\<lambda>loan. loan_id loan = i) (loans st) = Some index"
    "loans st ! index = l"
    using getLoanById_index [OF assms(1)] by blast
  show ?thesis
    using ix assms(2,3) by (simp add: updateLoan_def Let_def merge_loan_def spread_def)
qed

lemma updatePayment_completedAt:
  assumes "getPaymentById st i = Some p" and "pp_status u = Some ''completed''"
    and "pp_completedAt u = None"
  shows "map_option pay_completedAt (fst (updatePayment now i u st))
           = Some (if falsy_str (pay_completedAt p) then Some now else pay_completedAt p)"
proof -
  obtain index where ix: "findIndex (\<lambda>pay. pay_id pay = i) (payments st) = Some index"
    "payments st ! index = p"
    using getPaymentById_index [OF assms(1)] by blast
  show ?thesis
    using ix assms(2,3) by (simp add: updatePayment_def Let_def merge_payment_def spread_def)
qed

lemma updateAirtimePurchase_completedAt:
  assumes "getAirtimePurchaseById st i = Some p" and "ap_status u = Some ''completed''"
    and "ap_completedAt u = None"
  shows "map_option air_completedAt (fst (updateAirtimePurchase now i u st))
           = Some (if falsy_str (air_completedAt p) then Some now else air_completedAt p)"
proof -
  obtain index where ix: "findIndex (\<lambda>p. air_id p = i) (airtimePurchases st) = Some index"
    "airtimePurchases st ! index = p"
    using getAirtimePurchaseById_index [OF assms(1)] by blast
  show ?thesis
    using ix assms(2,3)
    by (simp add: updateAirtimePurchase_def Let_def merge_airtime_def spread_def)
qed

lemma updateKycRecord_verifiedAt:
  assumes "getKycRecord st c = Some k" and "kp_status u = Some ''approved''"
    and "kp_verifiedAt u = None"
  shows "kyc_verifiedAt (fst (updateKycRecord now expiry c u st))
           = (if falsy_str (kyc_verifiedAt k) then Some now else kyc_verifiedAt k)"
proof -
  obtain index where ix: "findIndex (\<lambda>kyc. kyc_customerId kyc = c) (kycRecords st) = Some index"
    "kycRecords st ! index = k"
    using getKycRecord_index [OF assms(1)] by blast
  show ?thesis
    using ix assms(2,3) by (simp add: updateKycRecord_def Let_def merge_kyc_def spread_def)
qed

text \<open>A timestamp the patch carries is merged as it is given.\<close>

lemma updateLoan_approvedAt_carried:
  assumes "getLoanById st i = Some l" and "lp_status u = Some ''approved''"
    and "lp_approvedAt u = Some (Some t)" and "t \<noteq> []"
  shows "map_option loan_approvedAt (fst (updateLoan now i u st)) = Some (Some t)"
proof -
  obtain index where ix: "findIndex (\<lambda>loan. loan_id loan = i) (loans st) = Some index"
    "loans st ! index = l"
    using getLoanById_index [OF assms(1)] by blast
  show ?thesis
    using ix assms(2,3,4)
    by (simp add: updateLoan_def Let_def merge_loan_def spread_def falsy_str_def)
qed

lemma status_patch:
  "merge_loan l (no_loan_patch\<lparr>lp_status := Some s\<rparr>) = l\<lparr>loan_status := s\<rparr>"
  by (simp add: merge_loan_def no_loan_patch_def spread_def)

lemma updateLoan_approved_again:
  assumes "getLoanById st i = Some l" and "loan_status l = ''approved''"
    and "\<not> falsy_str (loan_approvedAt l)"
  shows "updateLoan now i (no_loan_patch\<lparr>lp_status := Some ''approved''\<rparr>) st = (Some l, st)"
proof -
  obtain index where ix: "findIndex (\<lambda>loan. loan_id loan = i) (loans st) = Some index"
    "loans st ! index = l"
    using getLoanById_index [OF assms(1)] by blast
  have ps: "lp_status (no_loan_patch\<lparr>lp_status := Some ''approved''\<rparr>) = Some ''approved''"
    by (simp add: no_loan_patch_def)
  have m: "merge_loan l (no_loan_patch\<lparr>lp_status := Some ''approved''\<rparr>) = l"
    using assms(2) by (simp add: status_patch)
  have same: "(loans st)[index := l] = loans st"
    using list_update_id [of "loans st" index] ix(2) by simp
  show ?thesis
    using ix assms(3) by (simp add: updateLoan_def Let_def m ps same)
qed

lemma approve_twice:
  assumes "getLoanById st i = Some l" and "now1 \<noteq> []"
  shows "snd (updateLoan now2 i (no_loan_patch\<lparr>lp_status := Some ''approved''\<rparr>)
            (snd (updateLoan now1 i (no_loan_patch\<lparr>lp_status := Some ''approved''\<rparr>) st)))
         = snd (updateLoan now1 i (no_loan_patch\<lparr>lp_status := Some ''approved''\<rparr>) st)
       \<and> map_option loan_approvedAt
           (getLoanById (snd (updateLoan now1 i (no_loan_patch\<lparr>lp_status := Some ''approved''\<rparr>) st)) i)
         = Some (if falsy_str (loan_approvedAt l) then Some now1 else loan_approvedAt l)"
proof -
  let ?p = "no_loan_patch\<lparr>lp_status := Some ''approved''\<rparr>"
  let ?l1 = "l\<lparr>loan_status := ''approved'',
                loan_approvedAt := (if falsy_str (loan_approvedAt l) then Some now1 else loan_approvedAt l)\<rparr>"
  obtain index where ix: "findIndex (\<lambda>loan. loan_id loan = i) (loans st) = Some index"
    "loans st ! index = l" "loan_id l = i"
    using getLoanById_index [OF assms(1)] by blast
  have ps: "lp_status ?p = Some ''approved''"
    by (simp add: no_loan_patch_def)
  have first: "updateLoan now1 i ?p st = (Some ?l1, st\<lparr>loans := (loans st)[index := ?l1]\<rparr>)"
    using ix by (simp add: updateLoan_def Let_def status_patch ps)
  have f1: "find (\<lambda>loan. loan_id loan = i) ((loans st)[index := ?l1]) = Some ?l1"
    using find_list_update [OF ix(1), of ?l1] ix(3) by simp
  then have g1: "getLoanById (st\<lparr>loans := (loans st)[index := ?l1]\<rparr>) i = Some ?l1"
    by (simp add: getLoanById_def)
  have set: "\<not> falsy_str (loan_approvedAt ?l1)"
    using assms(2) by (auto simp: falsy_str_def)
  have second: "updateLoan now2 i ?p (st\<lparr>loans := (loans st)[index := ?l1]\<rparr>)
                  = (Some ?l1, st\<lparr>loans := (loans st)[index := ?l1]\<rparr>)"
    using updateLoan_approved_again [OF g1 _ set] by simp
  show ?thesis
    using first second g1 by simp
qed

lemma seed_air_001: "getAirtimePurchaseById seed ''air-001'' = Some (seed_airtimePurchases ! 0)"
  by (simp add: getAirtimePurchaseById_def seed_def seed_airtimePurchases_def)

lemma seed_cust_002: "getKycRecord seed ''cust-002'' = Some (seed_kycRecords ! 1)"
  by (simp add: getKycRecord_def seed_def seed_kycRecords_def)

text \<open>
  Claim C5 says that a terminal timestamp, once stamped, is left unchanged by every later
  update with the same patch status. The update functions merge the patch over the stored
  record before they look at the timestamp, so a timestamp that the patch carries replaces
  the stored one. The seeded pending loan \<open>loan-002\<close> is approved by a first update, which
  stamps \<open>approvedAt\<close>; a second update with the same status and an \<open>approvedAt\<close> of
  its own changes it.
\<close>

theorem approvedAt_overwritten_counterexample:
  "map_option loan_approvedAt
     (getLoanById
        (snd (updateLoan ''2024-02-01T09:00:00.000Z'' ''loan-002''
                (no_loan_patch\<lparr>lp_status := Some ''approved''\<rparr>) seed)) ''loan-002'')
     = Some (Some ''2024-02-01T09:00:00.000Z'')
   \<and> map_option loan_approvedAt
       (getLoanById
          (snd (updateLoan ''2024-02-02T09:00:00.000Z'' ''loan-002''
                  (no_loan_patch\<lparr>lp_status := Some ''approved'',
                     lp_approvedAt := Some (Some ''2024-03-03T00:00:00.000Z'')\<rparr>)
                  (snd (updateLoan ''2024-02-01T09:00:00.000Z'' ''loan-002''
                          (no_loan_patch\<lparr>lp_status := Some ''approved''\<rparr>) seed))))
          ''loan-002'')
     = Some (Some ''2024-03-03T00:00:00.000Z'')"
  by (simp add: updateLoan_def Let_def no_loan_patch_def getLoanById_def seed_def seed_loans_def
      merge_loan_def spread_def falsy_str_def)

text \<open>
  The branch of \<^verbatim>\<open>updateKycRecord\<close> that creates a record returns the defaults merged
  with the patch.
\<close>

lemma kyc_created_unstamped:
  "kyc_status (fst (updateKycRecord ''2024-02-01T09:00:00.000Z'' ''2025-01-31T09:00:00.000Z''
                      ''cust-004'' (no_kyc_patch\<lparr>kp_status := Some ''approved''\<rparr>) seed))
     = ''approved''
   \<and> kyc_verifiedAt (fst (updateKycRecord ''2024-02-01T09:00:00.000Z'' ''2025-01-31T09:00:00.000Z''
                           ''cust-004'' (no_kyc_patch\<lparr>kp_status := Some ''approved''\<rparr>) seed))
     = None"
  by (simp add: updateKycRecord_def Let_def no_kyc_patch_def seed_def seed_kycRecords_def
      merge_kyc_def spread_def)

text \<open>
  Claim C5 as amended. For a record that is in the store, an update whose patch status is
  the trigger value and whose patch does not carry the timestamp itself stamps the
  timestamp with the current time when it is not yet set, and leaves a timestamp that is
  set unchanged: a loan's \<open>approvedAt\<close> (trigger \<open>approved\<close>) and \<open>disbursedAt\<close>
  (trigger \<open>disbursed\<close>), a payment's and an airtime purchase's \<open>completedAt\<close> (trigger
  \<open>completed\<close>), a KYC record's \<open>verifiedAt\<close> (trigger \<open>approved\<close>). The statement
  is about the record the update returns, which is the record it stores (lemmas
  \<open>updateLoan_returns_stored\<close> and the three beside it). A non-empty \<open>approvedAt\<close> that the patch of a
  loan carries is merged as it is given. Applying the update whose patch is the status
  \<open>approved\<close> alone a second time leaves the whole store, and so \<open>approvedAt\<close>, as
  the first update made it.
\<close>

theorem terminal_timestamps:
  "(getLoanById st loanId = Some l \<and> lp_status lu = Some ''approved'' \<and> lp_approvedAt lu = None
      \<longrightarrow> map_option loan_approvedAt (fst (updateLoan now loanId lu st))
            = Some (if falsy_str (loan_approvedAt l) then Some now else loan_approvedAt l))
   \<and> (getLoanById st loanId = Some l \<and> lp_status lu = Some ''disbursed'' \<and> lp_disbursedAt lu = None
      \<longrightarrow> map_option loan_disbursedAt (fst (updateLoan now loanId lu st))
            = Some (if falsy_str (loan_disbursedAt l) then Some now else loan_disbursedAt l))
   \<and> (getPaymentById st paymentId = Some p \<and> pp_status pu = Some ''completed''
        \<and> pp_completedAt pu = None
      \<longrightarrow> map_option pay_completedAt (fst (updatePayment now paymentId pu st))
            = Some (if falsy_str (pay_completedAt p) then Some now else pay_completedAt p))
   \<and> (getAirtimePurchaseById st purchaseId = Some a \<and> ap_status au = Some ''completed''
        \<and> ap_completedAt au = None
      \<longrightarrow> map_option air_completedAt (fst (updateAirtimePurchase now purchaseId au st))
            = Some (if falsy_str (air_completedAt a) then Some now else air_completedAt a))
   \<and> (getKycRecord st customerId = Some k \<and> kp_status ku = Some ''approved''
        \<and> kp_verifiedAt ku = None
      \<longrightarrow> kyc_verifiedAt (fst (updateKycRecord now expiry customerId ku st))
            = (if falsy_str (kyc_verifiedAt k) then Some now else kyc_verifiedAt k))
   \<and> (getLoanById st loanId = Some l \<and> lp_status lu = Some ''approved''
        \<and> lp_approvedAt lu = Some (Some t) \<and> t \<noteq> []
      \<longrightarrow> map_option loan_approvedAt (fst (updateLoan now loanId lu st)) = Some (Some t))
   \<and> (getLoanById st loanId = Some l \<and> now \<noteq> []
      \<longrightarrow> snd (updateLoan later loanId (no_loan_patch\<lparr>lp_status := Some ''approved''\<rparr>)
                 (snd (updateLoan now loanId (no_loan_patch\<lparr>lp_status := Some ''approved''\<rparr>) st)))
            = snd (updateLoan now loanId (no_loan_patch\<lparr>lp_status := Some ''approved''\<rparr>) st)
          \<and> map_option loan_approvedAt
              (getLoanById
                 (snd (updateLoan now loanId (no_loan_patch\<lparr>lp_status := Some ''approved''\<rparr>) st))
                 loanId)
            = Some (if falsy_str (loan_approvedAt l) then Some now else loan_approvedAt l))"
  using updateLoan_approvedAt [of st loanId l lu now]
    updateLoan_disbursedAt [of st loanId l lu now]
    updatePayment_completedAt [of st paymentId p pu now]
    updateAirtimePurchase_completedAt [of st purchaseId a au now]
    updateKycRecord_verifiedAt [of st customerId k ku now expiry]
    updateLoan_approvedAt_carried [of st loanId l lu t now]
    approve_twice [of st loanId l now later]
  by blast

text \<open>
  On the seed data: \<open>loan-002\<close>, \<open>pay-002\<close> and the KYC record of \<open>cust-002\<close> have
  no timestamp yet and get the time of the update; \<open>loan-001\<close> and \<open>air-001\<close> keep
  theirs.
\<close>

theorem terminal_timestamps_witness:
  "map_option loan_approvedAt
     (fst (updateLoan ''2024-02-01T09:00:00.000Z'' ''loan-002''
             (no_loan_patch\<lparr>lp_status := Some ''approved''\<rparr>) seed))
     = Some (Some ''2024-02-01T09:00:00.000Z'')
   \<and> map_option loan_disbursedAt
       (fst (updateLoan ''2024-02-01T09:00:00.000Z'' ''loan-001''
               (no_loan_patch\<lparr>lp_status := Some ''disbursed''\<rparr>) seed))
     = Some (Some ''2024-01-13T10:00:00Z'')
   \<and> map_option pay_completedAt
       (fst (updatePayment ''2024-02-01T09:00:00.000Z'' ''pay-002''
               (no_payment_patch\<lparr>pp_status := Some ''completed''\<rparr>) seed))
     = Some (Some ''2024-02-01T09:00:00.000Z'')
   \<and> map_option air_completedAt
       (fst (updateAirtimePurchase ''2024-02-01T09:00:00.000Z'' ''air-001''
               (no_airtime_patch\<lparr>ap_status := Some ''completed''\<rparr>) seed))
     = Some (Some ''2024-01-18T12:02:00Z'')
   \<and> kyc_verifiedAt
       (fst (updateKycRecord ''2024-02-01T09:00:00.000Z'' ''2025-01-31T09:00:00.000Z''
               ''cust-002'' (no_kyc_patch\<lparr>kp_status := Some ''approved''\<rparr>) seed))
     = Some ''2024-02-01T09:00:00.000Z''
   \<and> map_option loan_approvedAt
       (fst (updateLoan ''2024-02-01T09:00:00.000Z'' ''loan-001''
               (no_loan_patch\<lparr>lp_status := Some ''approved'',
                  lp_approvedAt := Some (Some ''2024-03-03T00:00:00.000Z'')\<rparr>) seed))
     = Some (Some ''2024-03-03T00:00:00.000Z'')
   \<and> snd (updateLoan ''2024-02-02T09:00:00.000Z'' ''loan-002''
            (no_loan_patch\<lparr>lp_status := Some ''approved''\<rparr>)
            (snd (updateLoan ''2024-02-01T09:00:00.000Z'' ''loan-002''
                    (no_loan_patch\<lparr>lp_status := Some ''approved''\<rparr>) seed)))
     = snd (updateLoan ''2024-02-01T09:00:00.000Z'' ''loan-002''
              (no_loan_patch\<lparr>lp_status := Some ''approved''\<rparr>) seed)"
proof -
  note A = terminal_timestamps [where st = seed and now = "''2024-02-01T09:00:00.000Z''"
      and later = "''2024-02-02T09:00:00.000Z''" and expiry = "''2025-01-31T09:00:00.000Z''"
      and loanId = "''loan-002''" and l = "seed_loans ! 1"
      and lu = "no_loan_patch\<lparr>lp_status := Some ''approved''\<rparr>"
      and paymentId = "''pay-002''" and p = "seed_payments ! 1"
      and pu = "no_payment_patch\<lparr>pp_status := Some ''completed''\<rparr>"
      and purchaseId = "''air-001''" and a = "seed_airtimePurchases ! 0"
      and au = "no_airtime_patch\<lparr>ap_status := Some ''completed''\<rparr>"
      and customerId = "''cust-002''" and k = "seed_kycRecords ! 1"
      and ku = "no_kyc_patch\<lparr>kp_status := Some ''approved''\<rparr>"]
  note B = terminal_timestamps [where st = seed and now = "''2024-02-01T09:00:00.000Z''"
      and loanId = "''loan-001''" and l = "seed_loans ! 0"
      and lu = "no_loan_patch\<lparr>lp_status := Some ''disbursed''\<rparr>"]
  note C = terminal_timestamps [where st = seed and now = "''2024-02-01T09:00:00.000Z''"
      and loanId = "''loan-001''" and l = "seed_loans ! 0"
      and lu = "no_loan_patch\<lparr>lp_status := Some ''approved'',
                  lp_approvedAt := Some (Some ''2024-03-03T00:00:00.000Z'')\<rparr>"
      and t = "''2024-03-03T00:00:00.000Z''"]
  have c1: "map_option loan_approvedAt
     (fst (updateLoan ''2024-02-01T09:00:00.000Z'' ''loan-002''
             (no_loan_patch\<lparr>lp_status := Some ''approved''\<rparr>) seed))
     = Some (Some ''2024-02-01T09:00:00.000Z'')"
    using A [THEN conjunct1]
    by (simp add: seed_loan_002 no_loan_patch_def seed_loans_def falsy_str_def)
  have c2: "map_option loan_disbursedAt
       (fst (updateLoan ''2024-02-01T09:00:00.000Z'' ''loan-001''
               (no_loan_patch\<lparr>lp_status := Some ''disbursed''\<rparr>) seed))
     = Some (Some ''2024-01-13T10:00:00Z'')"
    using B [THEN conjunct2, THEN conjunct1]
    by (simp add: seed_loan_001 no_loan_patch_def seed_loans_def falsy_str_def)
  have c3: "map_option pay_completedAt
       (fst (updatePayment ''2024-02-01T09:00:00.000Z'' ''pay-002''
               (no_payment_patch\<lparr>pp_status := Some ''completed''\<rparr>) seed))
     = Some (Some ''2024-02-01T09:00:00.000Z'')"
    using A [THEN conjunct2, THEN conjunct2, THEN conjunct1]
    by (simp add: seed_pay_002 no_payment_patch_def seed_payments_def falsy_str_def)
  have c4: "map_option air_completedAt
       (fst (updateAirtimePurchase ''2024-02-01T09:00:00.000Z'' ''air-001''
               (no_airtime_patch\<lparr>ap_status := Some ''completed''\<rparr>) seed))
     = Some (Some ''2024-01-18T12:02:00Z'')"
    using A [THEN conjunct2, THEN conjunct2, THEN conjunct2, THEN conjunct1]
    by (simp add: seed_air_001 no_airtime_patch_def seed_airtimePurchases_def falsy_str_def)
  have c5: "kyc_verifiedAt
       (fst (updateKycRecord ''2024-02-01T09:00:00.000Z'' ''2025-01-31T09:00:00.000Z''
               ''cust-002'' (no_kyc_patch\<lparr>kp_status := Some ''approved''\<rparr>) seed))
     = Some ''2024-02-01T09:00:00.000Z''"
    using A [THEN conjunct2, THEN conjunct2, THEN conjunct2, THEN conjunct2, THEN conjunct1]
    by (simp add: seed_cust_002 no_kyc_patch_def seed_kycRecords_def falsy_str_def)
  have c6: "map_option loan_approvedAt
       (fst (updateLoan ''2024-02-01T09:00:00.000Z'' ''loan-001''
               (no_loan_patch\<lparr>lp_status := Some ''approved'',
                  lp_approvedAt := Some (Some ''2024-03-03T00:00:00.000Z'')\<rparr>) seed))
     = Some (Some ''2024-03-03T00:00:00.000Z'')"
    using C [THEN conjunct2, THEN conjunct2, THEN conjunct2, THEN conjunct2, THEN conjunct2,
        THEN conjunct1]
    by (simp add: seed_loan_001 no_loan_patch_def)
  have c7: "snd (updateLoan ''2024-02-02T09:00:00.000Z'' ''loan-002''
            (no_loan_patch\<lparr>lp_status := Some ''approved''\<rparr>)
            (snd (updateLoan ''2024-02-01T09:00:00.000Z'' ''loan-002''
                    (no_loan_patch\<lparr>lp_status := Some ''approved''\<rparr>) seed)))
     = snd (updateLoan ''2024-02-01T09:00:00.000Z'' ''loan-002''
              (no_loan_patch\<lparr>lp_status := Some ''approved''\<rparr>) seed)"
    using A [THEN conjunct2, THEN conjunct2, THEN conjunct2, THEN conjunct2, THEN conjunct2,
        THEN conjunct2]
    by (simp add: seed_loan_002)
  from c1 c2 c3 c4 c5 c6 c7 show ?thesis
    by blast
qed

section \<open>Initiating a payment\<close>

lemma initiate_outcome:
  "(case payments_initiate now rid body st of
      (SuccessEnvelope code payment msg ts r, st') \<Rightarrow>
         st' = st\<lparr>payments := payments st @ [payment]\<rparr>
         \<and> pay_status payment = ''pending''
         \<and> pay_kycComplete payment
         \<and> (case getAccountById st (pay_accountId payment) of
               None \<Rightarrow> False
             | Some account \<Rightarrow>
                 pay_sufficientBalance payment = (pay_amount payment \<le> acc_balance account))
    | (ErrorEnvelope code msg ts r, st') \<Rightarrow> st' = st)"
  by (simp add: payments_initiate_def addPayment_def Let_def split: option.splits)

lemma initiate_not_found:
  assumes "ib_accountId body = Some accountId" and "accountId \<noteq> []"
    and "\<not> falsy_str (ib_beneficiary body)" and "\<not> falsy_str (ib_beneficiaryAccount body)"
    and "ib_amount body = Some amount" and "0 < amount" and "\<not> falsy_str (ib_currency body)"
    and "getAccountById st accountId = None"
  shows "payments_initiate now rid body st = (ErrorEnvelope 404 ''Account not found'' now rid, st)"
  using assms
  by (auto simp add: payments_initiate_def falsy_str_def falsy_num_def split: option.splits)

lemma initiate_created:
  assumes "ib_accountId body = Some accountId" and "accountId \<noteq> []"
    and "\<not> falsy_str (ib_beneficiary body)" and "\<not> falsy_str (ib_beneficiaryAccount body)"
    and "ib_amount body = Some amount" and "0 < amount" and "\<not> falsy_str (ib_currency body)"
    and "getAccountById st accountId = Some account"
  shows "\<exists>payment. payments_initiate now rid body st
            = (SuccessEnvelope 201 payment ''Payment initiated'' now rid,
               st\<lparr>payments := payments st @ [payment]\<rparr>)
          \<and> pay_status payment = ''pending'' \<and> pay_kycComplete payment
          \<and> pay_sufficientBalance payment = (amount \<le> acc_balance account)
          \<and> pay_accountId payment = accountId \<and> pay_amount payment = amount"
  using assms
  by (auto simp add: payments_initiate_def addPayment_def Let_def falsy_str_def falsy_num_def
      split: option.splits)

lemma initiate_unknown_account:
  assumes "ib_accountId body = Some accountId" and "getAccountById st accountId = None"
  shows "snd (payments_initiate now rid body st) = st"
  using assms
  by (auto simp add: payments_initiate_def split: option.splits)

lemma seed_acc_001: "getAccountById seed ''acc-001'' = Some (seed_accounts ! 0)"
  by (simp add: getAccountById_def seed_def seed_accounts_def)

lemma seed_acc_999: "getAccountById seed ''acc-999'' = None"
  by (simp add: getAccountById_def seed_def seed_accounts_def)

lemma initiate_missing_field:
  assumes "falsy_str (ib_accountId body) \<or> falsy_str (ib_beneficiary body)
           \<or> falsy_str (ib_beneficiaryAccount body) \<or> falsy_num (ib_amount body)
           \<or> falsy_str (ib_currency body)"
  shows "payments_initiate now rid body st
           = (ErrorEnvelope 400
                ''Missing required fields: accountId, beneficiary, beneficiaryAccount, amount, currency''
                now rid, st)"
  using assms by (simp add: payments_initiate_def)

lemma initiate_bad_amount:
  assumes "ib_accountId body = Some accountId" and "accountId \<noteq> []"
    and "\<not> falsy_str (ib_beneficiary body)" and "\<not> falsy_str (ib_beneficiaryAccount body)"
    and "ib_amount body = Some amount" and "amount < 0" and "\<not> falsy_str (ib_currency body)"
  shows "payments_initiate now rid body st
           = (ErrorEnvelope 400 ''Amount must be greater than 0'' now rid, st)"
  using assms
  by (auto simp add: payments_initiate_def falsy_str_def falsy_num_def split: option.splits)

text \<open>
  Claim C9 says that a request whose account does not exist is answered with a NotFound
  error. The handler checks the body before it looks the account up: a request for the
  unknown account \<open>acc-999\<close> with the amount -5 is answered with the status 400 and the
  message about the amount.
\<close>

theorem unknown_account_invalid_counterexample:
  "getAccountById seed ''acc-999'' = None
   \<and> ib_accountId (initiate_from_acc_999\<lparr>ib_amount := Some (- 5)\<rparr>) = Some ''acc-999''
   \<and> payments_initiate ''2024-02-01T09:00:00.000Z'' ''req-1''
         (initiate_from_acc_999\<lparr>ib_amount := Some (- 5)\<rparr>) seed
       = (ErrorEnvelope 400 ''Amount must be greater than 0''
            ''2024-02-01T09:00:00.000Z'' ''req-1'', seed)"
  by (simp add: seed_acc_999 payments_initiate_def initiate_from_acc_999_def
      initiate_from_acc_001_def falsy_str_def falsy_num_def)

text \<open>
  Claim C9 as amended. Whatever the request, a payment that initiate creates is appended
  to the array with the status \<open>pending\<close>, \<open>kycComplete\<close> true, and
  \<open>sufficientBalance\<close> telling whether the balance of its account, as stored when the
  payment is created, is at least its amount; an error response leaves the store as it
  was. A request that names an account the store does not hold creates no payment. For a
  request that passes the checks on the body (the required fields truthy, the amount
  positive), an unknown account is answered with the status 404 and the message
  \<open>Account not found\<close>, and a known one with the status 201 and the new payment. A body
  that fails the checks is answered with the status 400 before the account is looked up.
\<close>

theorem initiate_payment:
  "(case payments_initiate now rid body st of
      (SuccessEnvelope code payment msg ts r, st') \<Rightarrow>
         st' = st\<lparr>payments := payments st @ [payment]\<rparr>
         \<and> pay_status payment = ''pending''
         \<and> pay_kycComplete payment
         \<and> (case getAccountById st (pay_accountId payment) of
               None \<Rightarrow> False
             | Some account \<Rightarrow>
                 pay_sufficientBalance payment = (pay_amount payment \<le> acc_balance account))
    | (ErrorEnvelope code msg ts r, st') \<Rightarrow> st' = st)
   \<and> (ib_accountId body = Some accountId \<and> getAccountById st accountId = None
        \<longrightarrow> snd (payments_initiate now rid body st) = st)
   \<and> (ib_accountId body = Some accountId \<and> accountId \<noteq> []
        \<and> \<not> falsy_str (ib_beneficiary body) \<and> \<not> falsy_str (ib_beneficiaryAccount body)
        \<and> ib_amount body = Some amount \<and> 0 < amount \<and> \<not> falsy_str (ib_currency body)
        \<longrightarrow>
          (getAccountById st accountId = None \<longrightarrow>
             payments_initiate now rid body st
               = (ErrorEnvelope 404 ''Account not found'' now rid, st))
          \<and> (\<forall>account. getAccountById st accountId = Some account \<longrightarrow>
                (\<exists>payment. payments_initiate now rid body st
                     = (SuccessEnvelope 201 payment ''Payment initiated'' now rid,
                        st\<lparr>payments := payments st @ [payment]\<rparr>)
                   \<and> pay_status payment = ''pending'' \<and> pay_kycComplete payment
                   \<and> pay_sufficientBalance payment = (amount \<le> acc_balance account)
                   \<and> pay_accountId payment = accountId \<and> pay_amount payment = amount)))
   \<and> (falsy_str (ib_accountId body) \<or> falsy_str (ib_beneficiary body)
        \<or> falsy_str (ib_beneficiaryAccount body) \<or> falsy_num (ib_amount body)
        \<or> falsy_str (ib_currency body)
        \<longrightarrow> payments_initiate now rid body st
              = (ErrorEnvelope 400
                   ''Missing required fields: accountId, beneficiary, beneficiaryAccount, amount, currency''
                   now rid, st))
   \<and> (ib_accountId body = Some accountId \<and> accountId \<noteq> []
        \<and> \<not> falsy_str (ib_beneficiary body) \<and> \<not> falsy_str (ib_beneficiaryAccount body)
        \<and> ib_amount body = Some amount \<and> amount < 0 \<and> \<not> falsy_str (ib_currency body)
        \<longrightarrow> payments_initiate now rid body st
              = (ErrorEnvelope 400 ''Amount must be greater than 0'' now rid, st))"
  using initiate_outcome [where now = now and rid = rid and body = body and st = st]
    initiate_unknown_account [where body = body and accountId = accountId and st = st
      and now = now and rid = rid]
    initiate_not_found [where body = body and accountId = accountId and amount = amount
      and st = st and now = now and rid = rid]
    initiate_created [where body = body and accountId = accountId and amount = amount
      and st = st and now = now and rid = rid]
    initiate_missing_field [where body = body and st = st and now = now and rid = rid]
    initiate_bad_amount [where body = body and accountId = accountId and amount = amount
      and st = st and now = now and rid = rid]
  by blast

lemma third_payment_id:
  "padStart 3 CHR ''0'' (show_nat (Suc (length (payments seed)))) = ''003''"
  by code_simp

text \<open>
  On the seed data: a request for 6000 from \<open>acc-001\<close>, whose balance is 5000, creates
  \<open>pay-003\<close> with \<open>sufficientBalance\<close> false; the same request from \<open>acc-999\<close> is
  answered with 404; a negative amount and a missing currency are answered with 400.
\<close>

theorem initiate_payment_witness:
  "payments_initiate ''2024-02-01T09:00:00.000Z'' ''req-1'' initiate_from_acc_999 seed
     = (ErrorEnvelope 404 ''Account not found'' ''2024-02-01T09:00:00.000Z'' ''req-1'', seed)
   \<and> (\<exists>payment.
         payments_initiate ''2024-02-01T09:00:00.000Z'' ''req-1'' initiate_from_acc_001 seed
           = (SuccessEnvelope 201 payment ''Payment initiated''
                ''2024-02-01T09:00:00.000Z'' ''req-1'',
              seed\<lparr>payments := payments seed @ [payment]\<rparr>)
         \<and> pay_id payment = ''pay-003''
         \<and> pay_status payment = ''pending'' \<and> pay_kycComplete payment
         \<and> \<not> pay_sufficientBalance payment
         \<and> pay_accountId payment = ''acc-001'' \<and> pay_amount payment = 6000)
   \<and> payments_initiate ''2024-02-01T09:00:00.000Z'' ''req-1''
         (initiate_from_acc_001\<lparr>ib_amount := Some (- 5)\<rparr>) seed
       = (ErrorEnvelope 400 ''Amount must be greater than 0''
            ''2024-02-01T09:00:00.000Z'' ''req-1'', seed)
   \<and> payments_initiate ''2024-02-01T09:00:00.000Z'' ''req-1''
         (initiate_from_acc_001\<lparr>ib_currency := None\<rparr>) seed
       = (ErrorEnvelope 400
            ''Missing required fields: accountId, beneficiary, beneficiaryAccount, amount, currency''
            ''2024-02-01T09:00:00.000Z'' ''req-1'', seed)"
proof -
  have negative: "payments_initiate ''2024-02-01T09:00:00.000Z'' ''req-1''
         (initiate_from_acc_001\<lparr>ib_amount := Some (- 5)\<rparr>) seed
       = (ErrorEnvelope 400 ''Amount must be greater than 0''
            ''2024-02-01T09:00:00.000Z'' ''req-1'', seed)"
    using initiate_payment [where body = "initiate_from_acc_001\<lparr>ib_amount := Some (- 5)\<rparr>"
        and st = seed and accountId = "''acc-001''" and amount = "- 5"
        and now = "''2024-02-01T09:00:00.000Z''" and rid = "''req-1''"]
    by (simp add: initiate_from_acc_001_def falsy_str_def)
  have missing: "payments_initiate ''2024-02-01T09:00:00.000Z'' ''req-1''
         (initiate_from_acc_001\<lparr>ib_currency := None\<rparr>) seed
       = (ErrorEnvelope 400
            ''Missing required fields: accountId, beneficiary, beneficiaryAccount, amount, currency''
            ''2024-02-01T09:00:00.000Z'' ''req-1'', seed)"
    using initiate_payment [where body = "initiate_from_acc_001\<lparr>ib_currency := None\<rparr>"
        and st = seed and now = "''2024-02-01T09:00:00.000Z''" and rid = "''req-1''"]
    by (simp add: initiate_from_acc_001_def falsy_str_def)
  have a: "payments_initiate ''2024-02-01T09:00:00.000Z'' ''req-1'' initiate_from_acc_999 seed
     = (ErrorEnvelope 404 ''Account not found'' ''2024-02-01T09:00:00.000Z'' ''req-1'', seed)"
    using initiate_payment [where body = initiate_from_acc_999 and st = seed
        and accountId = "''acc-999''" and amount = 6000
        and now = "''2024-02-01T09:00:00.000Z''" and rid = "''req-1''"]
    by (simp add: initiate_from_acc_999_def initiate_from_acc_001_def falsy_str_def seed_acc_999)
  have "\<exists>payment.
         payments_initiate ''2024-02-01T09:00:00.000Z'' ''req-1'' initiate_from_acc_001 seed
           = (SuccessEnvelope 201 payment ''Payment initiated''
                ''2024-02-01T09:00:00.000Z'' ''req-1'',
              seed\<lparr>payments := payments seed @ [payment]\<rparr>)
         \<and> pay_status payment = ''pending'' \<and> pay_kycComplete payment
         \<and> pay_sufficientBalance payment = (6000 \<le> acc_balance (seed_accounts ! 0))
         \<and> pay_accountId payment = ''acc-001'' \<and> pay_amount payment = 6000"
    using initiate_payment [where body = initiate_from_acc_001 and st = seed
        and accountId = "''acc-001''" and amount = 6000
        and now = "''2024-02-01T09:00:00.000Z''" and rid = "''req-1''"]
    by (simp add: initiate_from_acc_001_def falsy_str_def seed_acc_001)
  then obtain payment where p:
    "payments_initiate ''2024-02-01T09:00:00.000Z'' ''req-1'' initiate_from_acc_001 seed
           = (SuccessEnvelope 201 payment ''Payment initiated''
                ''2024-02-01T09:00:00.000Z'' ''req-1'',
              seed\<lparr>payments := payments seed @ [payment]\<rparr>)"
    "pay_status payment = ''pending''" "pay_kycComplete payment"
    "pay_sufficientBalance payment = (6000 \<le> acc_balance (seed_accounts ! 0))"
    "pay_accountId payment = ''acc-001''" "pay_amount payment = 6000"
    by blast
  have insufficient: "\<not> pay_sufficientBalance payment"
    using p(4) by (simp add: seed_accounts_def)
  have "fst (payments_initiate ''2024-02-01T09:00:00.000Z'' ''req-1'' initiate_from_acc_001 seed)
          = SuccessEnvelope 201 payment ''Payment initiated''
              ''2024-02-01T09:00:00.000Z'' ''req-1''"
    using p(1) by simp
  then have ident: "pay_id payment = ''pay-003''"
    by (auto simp add: payments_initiate_def addPayment_def initiate_from_acc_001_def
        falsy_str_def falsy_num_def seed_acc_001 third_payment_id Let_def)
  from a p insufficient ident negative missing show ?thesis
    by blast
qed

section \<open>Updating the limits of an account\<close>

lemma limits_update_refused:
  assumes "lb_dailyLimit body = None \<or> lb_dailyLimit body = Some 0"
    and "lb_monthlyLimit body = None \<or> lb_monthlyLimit body = Some 0"
  shows "limits_update now rid accountId body st
           = (ErrorEnvelope 400
                ''At least one limit must be provided: dailyLimit or monthlyLimit'' now rid, st)"
  using assms by (simp add: limits_update_def falsy_num_def)

lemma limits_update_zero_accepted:
  assumes "lb_dailyLimit body = Some 0" and "lb_monthlyLimit body = Some m" and "0 < m"
  shows "\<exists>limit st'. limits_update now rid accountId body st
            = (SuccessEnvelope 200 limit ''Account limits updated'' now rid, st')
          \<and> lim_dailyLimit limit = 0 \<and> lim_monthlyLimit limit = m"
  using assms
  by (auto simp add: limits_update_def falsy_num_def updateAccountLimit_def Let_def
      merge_limit_def no_limit_patch_def spread_def split: option.splits)

text \<open>
  Claim C10. A limits update in which every limit supplied is 0, the other absent or 0 as
  well (for example \<open>dailyLimit\<close> 0 and no \<open>monthlyLimit\<close>), is answered with the
  status 400 and the message \<open>At least one limit must be provided: dailyLimit or
  monthlyLimit\<close>, and the store is left as it was: the first test is on truthiness, and 0
  is falsy. The value 0 itself passes the test \<open>>= 0\<close> of its field: beside a positive
  \<open>monthlyLimit\<close>, a \<open>dailyLimit\<close> of 0 is accepted and written.
\<close>

theorem limits_update_zero:
  "((lb_dailyLimit body = None \<or> lb_dailyLimit body = Some 0)
     \<and> (lb_monthlyLimit body = None \<or> lb_monthlyLimit body = Some 0)
     \<longrightarrow> limits_update now rid accountId body st
           = (ErrorEnvelope 400
                ''At least one limit must be provided: dailyLimit or monthlyLimit'' now rid, st))
   \<and> (lb_dailyLimit body = Some 0 \<and> lb_monthlyLimit body = Some m \<and> 0 < m
     \<longrightarrow> (\<exists>limit st'. limits_update now rid accountId body st
              = (SuccessEnvelope 200 limit ''Account limits updated'' now rid, st')
            \<and> lim_dailyLimit limit = 0 \<and> lim_monthlyLimit limit = m))"
  using limits_update_refused [where body = body and now = now and rid = rid
      and accountId = accountId and st = st]
    limits_update_zero_accepted [where body = body and m = m and now = now and rid = rid
      and accountId = accountId and st = st]
  by blast

theorem limits_update_zero_witness:
  "limits_update ''2024-02-01T09:00:00.000Z'' ''req-1'' ''acc-001''
       \<lparr> lb_dailyLimit = Some 0, lb_monthlyLimit = None \<rparr> seed
     = (ErrorEnvelope 400 ''At least one limit must be provided: dailyLimit or monthlyLimit''
          ''2024-02-01T09:00:00.000Z'' ''req-1'', seed)
   \<and> (\<exists>limit st'. limits_update ''2024-02-01T09:00:00.000Z'' ''req-1'' ''acc-001''
                      \<lparr> lb_dailyLimit = Some 0, lb_monthlyLimit = Some 20000 \<rparr> seed
              = (SuccessEnvelope 200 limit ''Account limits updated''
                   ''2024-02-01T09:00:00.000Z'' ''req-1'', st')
            \<and> lim_dailyLimit limit = 0 \<and> lim_monthlyLimit limit = 20000)"
  using limits_update_zero [where body = "\<lparr> lb_dailyLimit = Some 0, lb_monthlyLimit = None \<rparr>"
      and st = seed and now = "''2024-02-01T09:00:00.000Z''" and rid = "''req-1''"
      and accountId = "''acc-001''"]
    limits_update_zero [where body = "\<lparr> lb_dailyLimit = Some 0, lb_monthlyLimit = Some 20000 \<rparr>"
      and m = 20000
      and st = seed and now = "''2024-02-01T09:00:00.000Z''" and rid = "''req-1''"
      and accountId = "''acc-001''"]
  by simp

section \<open>Limit availability\<close>











section \<open>The checker convention\<close>

lemma accounts_check_active_absent:
  "getAccountById st accountId = None \<Longrightarrow>
     fst (accounts_check_active now rid accountId st)
       = \<lparr> http_status = 200, result = False, reason = ''Account not found'',
           metadata = [(''accountId'', JStr accountId)], timestamp = now, requestId = rid \<rparr>"
  by (simp add: accounts_check_active_def Let_def)

lemma accounts_check_active_status:
  "http_status (fst (accounts_check_active now rid accountId st)) = 200"
  by (simp add: accounts_check_active_def Let_def split: option.splits)

lemma accounts_check_active_reads:
  "snd (accounts_check_active now rid accountId st) = st"
  by (simp add: accounts_check_active_def Let_def split: option.splits)

lemma accounts_check_active_again:
  "fst (accounts_check_active now' rid' accountId st)
     = (fst (accounts_check_active now rid accountId st))\<lparr>timestamp := now', requestId := rid'\<rparr>"
  by (simp add: accounts_check_active_def Let_def split: option.splits)

lemma transactions_check_cleared_absent:
  "getTransactionById st txnId = None \<Longrightarrow>
     fst (transactions_check_cleared now rid txnId st)
       = \<lparr> http_status = 200, result = False, reason = ''Transaction not found'',
           metadata = [(''transactionId'', JStr txnId)], timestamp = now, requestId = rid \<rparr>"
  by (simp add: transactions_check_cleared_def Let_def)

lemma transactions_check_cleared_status:
  "http_status (fst (transactions_check_cleared now rid txnId st)) = 200"
  by (simp add: transactions_check_cleared_def Let_def split: option.splits)

lemma transactions_check_cleared_reads:
  "snd (transactions_check_cleared now rid txnId st) = st"
  by (simp add: transactions_check_cleared_def Let_def split: option.splits)

lemma transactions_check_cleared_again:
  "fst (transactions_check_cleared now' rid' txnId st)
     = (fst (transactions_check_cleared now rid txnId st))\<lparr>timestamp := now', requestId := rid'\<rparr>"
  by (simp add: transactions_check_cleared_def Let_def split: option.splits)

lemma payments_check_ready_absent:
  "getPaymentById st paymentId = None \<Longrightarrow>
     fst (payments_check_ready now rid paymentId st)
       = \<lparr> http_status = 200, result = False, reason = ''Payment not found'',
           metadata = [(''paymentId'', JStr paymentId)], timestamp = now, requestId = rid \<rparr>"
  by (simp add: payments_check_ready_def Let_def)

lemma payments_check_ready_status:
  "http_status (fst (payments_check_ready now rid paymentId st)) = 200"
  by (simp add: payments_check_ready_def Let_def split: option.splits)

lemma payments_check_ready_reads:
  "snd (payments_check_ready now rid paymentId st) = st"
  by (simp add: payments_check_ready_def Let_def split: option.splits)

lemma payments_check_ready_again:
  "fst (payments_check_ready now' rid' paymentId st)
     = (fst (payments_check_ready now rid paymentId st))\<lparr>timestamp := now', requestId := rid'\<rparr>"
  by (simp add: payments_check_ready_def Let_def split: option.splits)

lemma loans_check_eligible_absent:
  "getLoanById st loanId = None \<Longrightarrow>
     fst (loans_check_eligible now rid loanId st)
       = \<lparr> http_status = 200, result = False, reason = ''Loan not found'',
           metadata = [(''loanId'', JStr loanId)], timestamp = now, requestId = rid \<rparr>"
  by (simp add: loans_check_eligible_def Let_def)

lemma loans_check_eligible_status:
  "http_status (fst (loans_check_eligible now rid loanId st)) = 200"
  by (simp add: loans_check_eligible_def Let_def split: option.splits)

lemma loans_check_eligible_reads:
  "snd (loans_check_eligible now rid loanId st) = st"
  by (simp add: loans_check_eligible_def Let_def split: option.splits)

lemma loans_check_eligible_again:
  "fst (loans_check_eligible now' rid' loanId st)
     = (fst (loans_check_eligible now rid loanId st))\<lparr>timestamp := now', requestId := rid'\<rparr>"
  by (simp add: loans_check_eligible_def Let_def split: option.splits)

lemma loans_check_approved_absent:
  "getLoanById st loanId = None \<Longrightarrow>
     fst (loans_check_approved now rid loanId st)
       = \<lparr> http_status = 200, result = False, reason = ''Loan not found'',
           metadata = [(''loanId'', JStr loanId)], timestamp = now, requestId = rid \<rparr>"
  by (simp add: loans_check_approved_def Let_def)

lemma loans_check_approved_status:
  "http_status (fst (loans_check_approved now rid loanId st)) = 200"
  by (simp add: loans_check_approved_def Let_def split: option.splits)

lemma loans_check_approved_reads:
  "snd (loans_check_approved now rid loanId st) = st"
  by (simp add: loans_check_approved_def Let_def split: option.splits)

lemma loans_check_approved_again:
  "fst (loans_check_approved now' rid' loanId st)
     = (fst (loans_check_approved now rid loanId st))\<lparr>timestamp := now', requestId := rid'\<rparr>"
  by (simp add: loans_check_approved_def Let_def split: option.splits)

lemma airtime_check_completed_absent:
  "getAirtimePurchaseById st purchaseId = None \<Longrightarrow>
     fst (airtime_check_completed now rid purchaseId st)
       = \<lparr> http_status = 200, result = False, reason = ''Airtime purchase not found'',
           metadata = [(''purchaseId'', JStr purchaseId)], timestamp = now, requestId = rid \<rparr>"
  by (simp add: airtime_check_completed_def Let_def)

lemma airtime_check_completed_status:
  "http_status (fst (airtime_check_completed now rid purchaseId st)) = 200"
  by (simp add: airtime_check_completed_def Let_def split: option.splits)

lemma airtime_check_completed_reads:
  "snd (airtime_check_completed now rid purchaseId st) = st"
  by (simp add: airtime_check_completed_def Let_def split: option.splits)

lemma airtime_check_completed_again:
  "fst (airtime_check_completed now' rid' purchaseId st)
     = (fst (airtime_check_completed now rid purchaseId st))\<lparr>timestamp := now', requestId := rid'\<rparr>"
  by (simp add: airtime_check_completed_def Let_def split: option.splits)

lemma kyc_check_approved_absent:
  "getKycRecord st customerId = None \<Longrightarrow>
     fst (kyc_check_approved now rid customerId st)
       = \<lparr> http_status = 200, result = False, reason = ''KYC record not found'',
           metadata = [(''customerId'', JStr customerId)], timestamp = now, requestId = rid \<rparr>"
  by (simp add: kyc_check_approved_def Let_def)

lemma kyc_check_approved_status:
  "http_status (fst (kyc_check_approved now rid customerId st)) = 200"
  by (simp add: kyc_check_approved_def Let_def split: option.splits)

lemma kyc_check_approved_reads:
  "snd (kyc_check_approved now rid customerId st) = st"
  by (simp add: kyc_check_approved_def Let_def split: option.splits)

lemma kyc_check_approved_again:
  "fst (kyc_check_approved now' rid' customerId st)
     = (fst (kyc_check_approved now rid customerId st))\<lparr>timestamp := now', requestId := rid'\<rparr>"
  by (simp add: kyc_check_approved_def Let_def split: option.splits)

lemma limits_check_available_absent:
  "getAccountLimit st accountId = None \<Longrightarrow>
     fst (limits_check_available parseFloat numberToString now rid accountId
             amount period st)
       = \<lparr> http_status = 200, result = False, reason = ''Account limits not found'',
           metadata = [(''accountId'', JStr accountId)], timestamp = now, requestId = rid \<rparr>"
  by (simp add: limits_check_available_def Let_def)

lemma limits_check_available_status:
  "http_status (fst (limits_check_available parseFloat numberToString now rid accountId
             amount period st)) = 200"
  by (simp add: limits_check_available_def Let_def split: option.splits)

lemma limits_check_available_reads:
  "snd (limits_check_available parseFloat numberToString now rid accountId
             amount period st) = st"
  by (simp add: limits_check_available_def Let_def split: option.splits)

lemma limits_check_available_again:
  "fst (limits_check_available parseFloat numberToString now' rid' accountId
             amount period st)
     = (fst (limits_check_available parseFloat numberToString now rid accountId
             amount period st))\<lparr>timestamp := now', requestId := rid'\<rparr>"
  by (simp add: limits_check_available_def Let_def split: option.splits)

text \<open>
  Claim C6. Each of the eight checker operations answers a request whose id does not
  resolve with the HTTP status 200, \<open>result\<close> false, the reason that names the resource
  as not found, and a metadata object that holds the requested id and nothing else.
  Whatever the request, the status of a checker's response is 200: no path of a checker
  sends an error status, the validation failures of check-available included.
\<close>

theorem checker_not_found:
  "(getAccountById st accountId = None \<longrightarrow>
      fst (accounts_check_active now rid accountId st)
        = \<lparr> http_status = 200, result = False, reason = ''Account not found'',
            metadata = [(''accountId'', JStr accountId)], timestamp = now, requestId = rid \<rparr>)
   \<and> (getTransactionById st txnId = None \<longrightarrow>
      fst (transactions_check_cleared now rid txnId st)
        = \<lparr> http_status = 200, result = False, reason = ''Transaction not found'',
            metadata = [(''transactionId'', JStr txnId)], timestamp = now, requestId = rid \<rparr>)
   \<and> (getPaymentById st paymentId = None \<longrightarrow>
      fst (payments_check_ready now rid paymentId st)
        = \<lparr> http_status = 200, result = False, reason = ''Payment not found'',
            metadata = [(''paymentId'', JStr paymentId)], timestamp = now, requestId = rid \<rparr>)
   \<and> (getLoanById st loanId = None \<longrightarrow>
      fst (loans_check_eligible now rid loanId st)
        = \<lparr> http_status = 200, result = False, reason = ''Loan not found'',
            metadata = [(''loanId'', JStr loanId)], timestamp = now, requestId = rid \<rparr>)
   \<and> (getLoanById st loanId = None \<longrightarrow>
      fst (loans_check_approved now rid loanId st)
        = \<lparr> http_status = 200, result = False, reason = ''Loan not found'',
            metadata = [(''loanId'', JStr loanId)], timestamp = now, requestId = rid \<rparr>)
   \<and> (getAirtimePurchaseById st purchaseId = None \<longrightarrow>
      fst (airtime_check_completed now rid purchaseId st)
        = \<lparr> http_status = 200, result = False, reason = ''Airtime purchase not found'',
            metadata = [(''purchaseId'', JStr purchaseId)], timestamp = now, requestId = rid \<rparr>)
   \<and> (getKycRecord st customerId = None \<longrightarrow>
      fst (kyc_check_approved now rid customerId st)
        = \<lparr> http_status = 200, result = False, reason = ''KYC record not found'',
            metadata = [(''customerId'', JStr customerId)], timestamp = now, requestId = rid \<rparr>)
   \<and> (getAccountLimit st accountId = None \<longrightarrow>
      fst (limits_check_available parseFloat numberToString now rid accountId
             amount period st)
        = \<lparr> http_status = 200, result = False, reason = ''Account limits not found'',
            metadata = [(''accountId'', JStr accountId)], timestamp = now, requestId = rid \<rparr>)
   \<and> http_status (fst (accounts_check_active now rid accountId st)) = 200
   \<and> http_status (fst (transactions_check_cleared now rid txnId st)) = 200
   \<and> http_status (fst (payments_check_ready now rid paymentId st)) = 200
   \<and> http_status (fst (loans_check_eligible now rid loanId st)) = 200
   \<and> http_status (fst (loans_check_approved now rid loanId st)) = 200
   \<and> http_status (fst (airtime_check_completed now rid purchaseId st)) = 200
   \<and> http_status (fst (kyc_check_approved now rid customerId st)) = 200
   \<and> http_status (fst (limits_check_available parseFloat numberToString now rid accountId
             amount period st)) = 200"
  using accounts_check_active_absent [of st accountId] accounts_check_active_status
    transactions_check_cleared_absent [of st txnId] transactions_check_cleared_status
    payments_check_ready_absent [of st paymentId] payments_check_ready_status
    loans_check_eligible_absent [of st loanId] loans_check_eligible_status
    loans_check_approved_absent [of st loanId] loans_check_approved_status
    airtime_check_completed_absent [of st purchaseId] airtime_check_completed_status
    kyc_check_approved_absent [of st customerId] kyc_check_approved_status
    limits_check_available_absent [of st accountId] limits_check_available_status
  by simp

text \<open>On the seed data, with ids that no array holds.\<close>

theorem checker_not_found_witness:
  "fst (accounts_check_active ''2024-02-01T09:00:00.000Z'' ''req-1'' ''acc-999'' seed)
     = \<lparr> http_status = 200, result = False, reason = ''Account not found'',
         metadata = [(''accountId'', JStr ''acc-999'')], timestamp = ''2024-02-01T09:00:00.000Z'', requestId = ''req-1'' \<rparr>
   \<and> fst (transactions_check_cleared ''2024-02-01T09:00:00.000Z'' ''req-1'' ''txn-999'' seed)
     = \<lparr> http_status = 200, result = False, reason = ''Transaction not found'',
         metadata = [(''transactionId'', JStr ''txn-999'')], timestamp = ''2024-02-01T09:00:00.000Z'', requestId = ''req-1'' \<rparr>
   \<and> fst (payments_check_ready ''2024-02-01T09:00:00.000Z'' ''req-1'' ''pay-999'' seed)
     = \<lparr> http_status = 200, result = False, reason = ''Payment not found'',
         metadata = [(''paymentId'', JStr ''pay-999'')], timestamp = ''2024-02-01T09:00:00.000Z'', requestId = ''req-1'' \<rparr>
   \<and> fst (loans_check_eligible ''2024-02-01T09:00:00.000Z'' ''req-1'' ''loan-999'' seed)
     = \<lparr> http_status = 200, result = False, reason = ''Loan not found'',
         metadata = [(''loanId'', JStr ''loan-999'')], timestamp = ''2024-02-01T09:00:00.000Z'', requestId = ''req-1'' \<rparr>
   \<and> fst (loans_check_approved ''2024-02-01T09:00:00.000Z'' ''req-1'' ''loan-999'' seed)
     = \<lparr> http_status = 200, result = False, reason = ''Loan not found'',
         metadata = [(''loanId'', JStr ''loan-999'')], timestamp = ''2024-02-01T09:00:00.000Z'', requestId = ''req-1'' \<rparr>
   \<and> fst (airtime_check_completed ''2024-02-01T09:00:00.000Z'' ''req-1'' ''air-999'' seed)
     = \<lparr> http_status = 200, result = False, reason = ''Airtime purchase not found'',
         metadata = [(''purchaseId'', JStr ''air-999'')], timestamp = ''2024-02-01T09:00:00.000Z'', requestId = ''req-1'' \<rparr>
   \<and> fst (kyc_check_approved ''2024-02-01T09:00:00.000Z'' ''req-1'' ''cust-999'' seed)
     = \<lparr> http_status = 200, result = False, reason = ''KYC record not found'',
         metadata = [(''customerId'', JStr ''cust-999'')], timestamp = ''2024-02-01T09:00:00.000Z'', requestId = ''req-1'' \<rparr>
   \<and> fst (limits_check_available parseFloat_sample numberToString_sample ''2024-02-01T09:00:00.000Z'' ''req-1'' ''acc-999''
             (Some ''500'') None seed)
     = \<lparr> http_status = 200, result = False, reason = ''Account limits not found'',
         metadata = [(''accountId'', JStr ''acc-999'')], timestamp = ''2024-02-01T09:00:00.000Z'', requestId = ''req-1'' \<rparr>"
  using checker_not_found [where st = seed and now = "''2024-02-01T09:00:00.000Z''" and rid = "''req-1''"
      and accountId = "''acc-999''" and txnId = "''txn-999''" and paymentId = "''pay-999''"
      and loanId = "''loan-999''" and purchaseId = "''air-999''" and customerId = "''cust-999''"
      and parseFloat = parseFloat_sample and numberToString = numberToString_sample
      and amount = "Some ''500''" and period = None]
  by (simp add: getAccountById_def getTransactionById_def getPaymentById_def getLoanById_def
      getAirtimePurchaseById_def getKycRecord_def getAccountLimit_def seed_def seed_accounts_def
      seed_transactions_def seed_payments_def seed_loans_def seed_airtimePurchases_def
      seed_kycRecords_def seed_accountLimits_def)

text \<open>
  Claim C7. Each checker leaves the store as it received it, and a second call on the store
  the first call left answers as the first did: the HTTP status, \<open>result\<close>, \<open>reason\<close>
  and \<open>metadata\<close> are identical. The two remaining fields of the response, \<open>timestamp\<close>
  and \<open>requestId\<close>, are those of the request being answered.
\<close>

theorem checker_read_only:
  "snd (accounts_check_active now rid accountId st) = st
   \<and> fst (accounts_check_active now' rid' accountId (snd (accounts_check_active now rid accountId st)))
       = (fst (accounts_check_active now rid accountId st))\<lparr>timestamp := now', requestId := rid'\<rparr>
   \<and> snd (transactions_check_cleared now rid txnId st) = st
   \<and> fst (transactions_check_cleared now' rid' txnId (snd (transactions_check_cleared now rid txnId st)))
       = (fst (transactions_check_cleared now rid txnId st))\<lparr>timestamp := now', requestId := rid'\<rparr>
   \<and> snd (payments_check_ready now rid paymentId st) = st
   \<and> fst (payments_check_ready now' rid' paymentId (snd (payments_check_ready now rid paymentId st)))
       = (fst (payments_check_ready now rid paymentId st))\<lparr>timestamp := now', requestId := rid'\<rparr>
   \<and> snd (loans_check_eligible now rid loanId st) = st
   \<and> fst (loans_check_eligible now' rid' loanId (snd (loans_check_eligible now rid loanId st)))
       = (fst (loans_check_eligible now rid loanId st))\<lparr>timestamp := now', requestId := rid'\<rparr>
   \<and> snd (loans_check_approved now rid loanId st) = st
   \<and> fst (loans_check_approved now' rid' loanId (snd (loans_check_approved now rid loanId st)))
       = (fst (loans_check_approved now rid loanId st))\<lparr>timestamp := now', requestId := rid'\<rparr>
   \<and> snd (airtime_check_completed now rid purchaseId st) = st
   \<and> fst (airtime_check_completed now' rid' purchaseId (snd (airtime_check_completed now rid purchaseId st)))
       = (fst (airtime_check_completed now rid purchaseId st))\<lparr>timestamp := now', requestId := rid'\<rparr>
   \<and> snd (kyc_check_approved now rid customerId st) = st
   \<and> fst (kyc_check_approved now' rid' customerId (snd (kyc_check_approved now rid customerId st)))
       = (fst (kyc_check_approved now rid customerId st))\<lparr>timestamp := now', requestId := rid'\<rparr>
   \<and> snd (limits_check_available parseFloat numberToString now rid accountId
             amount period st) = st
   \<and> fst (limits_check_available parseFloat numberToString now' rid' accountId
             amount period (snd (limits_check_available parseFloat numberToString now rid accountId
             amount period st)))
       = (fst (limits_check_available parseFloat numberToString now rid accountId
             amount period st))\<lparr>timestamp := now', requestId := rid'\<rparr>"
  by (simp add: accounts_check_active_reads accounts_check_active_again
      transactions_check_cleared_reads transactions_check_cleared_again
      payments_check_ready_reads payments_check_ready_again
      loans_check_eligible_reads loans_check_eligible_again
      loans_check_approved_reads loans_check_approved_again
      airtime_check_completed_reads airtime_check_completed_again
      kyc_check_approved_reads kyc_check_approved_again
      limits_check_available_reads limits_check_available_again)

text \<open>On the seed data: the suspended account \<open>acc-003\<close> and the limits of \<open>acc-001\<close>.\<close>

theorem checker_read_only_witness:
  "snd (accounts_check_active ''2024-02-01T09:00:00.000Z'' ''req-1'' ''acc-003'' seed) = seed
   \<and> fst (accounts_check_active ''2024-02-01T09:00:05.000Z'' ''req-2'' ''acc-003''
            (snd (accounts_check_active ''2024-02-01T09:00:00.000Z'' ''req-1'' ''acc-003'' seed)))
       = \<lparr> http_status = 200, result = False, reason = ''Account status is: suspended'',
           metadata = [(''accountId'', JStr ''acc-003''), (''status'', JStr ''suspended''),
                       (''accountNumber'', JStr ''1234567892'')],
           timestamp = ''2024-02-01T09:00:05.000Z'', requestId = ''req-2'' \<rparr>
   \<and> fst (accounts_check_active ''2024-02-01T09:00:00.000Z'' ''req-1'' ''acc-003'' seed)
       = \<lparr> http_status = 200, result = False, reason = ''Account status is: suspended'',
           metadata = [(''accountId'', JStr ''acc-003''), (''status'', JStr ''suspended''),
                       (''accountNumber'', JStr ''1234567892'')],
           timestamp = ''2024-02-01T09:00:00.000Z'', requestId = ''req-1'' \<rparr>
   \<and> snd (limits_check_available parseFloat_sample numberToString_sample
            ''2024-02-01T09:00:00.000Z'' ''req-1'' ''acc-001'' (Some ''500'') None seed) = seed
   \<and> fst (limits_check_available parseFloat_sample numberToString_sample
            ''2024-02-01T09:00:05.000Z'' ''req-2'' ''acc-001'' (Some ''500'') None
            (snd (limits_check_available parseFloat_sample numberToString_sample
                    ''2024-02-01T09:00:00.000Z'' ''req-1'' ''acc-001'' (Some ''500'') None seed)))
       = \<lparr> http_status = 200, result = True, reason = ''Daily limit available: 750 GHS'',
           metadata = [(''accountId'', JStr ''acc-001''), (''period'', JStr ''daily''),
                       (''requestedAmount'', JNum 500), (''remaining'', JNum 750),
                       (''limit'', JNum 1000), (''used'', JNum 250),
                       (''currency'', JStr ''GHS'')],
           timestamp = ''2024-02-01T09:00:05.000Z'', requestId = ''req-2'' \<rparr>"
proof -
  note T = checker_read_only [where st = seed and now = "''2024-02-01T09:00:00.000Z''"
      and rid = "''req-1''" and now' = "''2024-02-01T09:00:05.000Z''" and rid' = "''req-2''"
      and parseFloat = parseFloat_sample and numberToString = numberToString_sample
      and amount = "Some ''500''" and period = None]
  have first: "fst (accounts_check_active ''2024-02-01T09:00:00.000Z'' ''req-1'' ''acc-003'' seed)
       = \<lparr> http_status = 200, result = False, reason = ''Account status is: suspended'',
           metadata = [(''accountId'', JStr ''acc-003''), (''status'', JStr ''suspended''),
                       (''accountNumber'', JStr ''1234567892'')],
           timestamp = ''2024-02-01T09:00:00.000Z'', requestId = ''req-1'' \<rparr>"
    by (simp add: accounts_check_active_def getAccountById_def seed_def seed_accounts_def)
  have limit: "fst (limits_check_available parseFloat_sample numberToString_sample
            ''2024-02-01T09:00:00.000Z'' ''req-1'' ''acc-001'' (Some ''500'') None seed)
       = \<lparr> http_status = 200, result = True, reason = ''Daily limit available: 750 GHS'',
           metadata = [(''accountId'', JStr ''acc-001''), (''period'', JStr ''daily''),
                       (''requestedAmount'', JNum 500), (''remaining'', JNum 750),
                       (''limit'', JNum 1000), (''used'', JNum 250),
                       (''currency'', JStr ''GHS'')],
           timestamp = ''2024-02-01T09:00:00.000Z'', requestId = ''req-1'' \<rparr>"
    by (simp add: limits_check_available_def getAccountLimit_def seed_def seed_accountLimits_def
        parseFloat_sample_def numberToString_sample_def falsy_str_def Let_def dsub_1000_250)
  note A = T [where accountId = "''acc-003''"]
  note L = T [where accountId = "''acc-001''", THEN conjunct2, THEN conjunct2, THEN conjunct2, THEN conjunct2, THEN conjunct2, THEN conjunct2, THEN conjunct2, THEN conjunct2, THEN conjunct2, THEN conjunct2, THEN conjunct2, THEN conjunct2, THEN conjunct2, THEN conjunct2]
  have a1: "snd (accounts_check_active ''2024-02-01T09:00:00.000Z'' ''req-1'' ''acc-003'' seed) = seed"
    using A [THEN conjunct1] .
  have a2: "fst (accounts_check_active ''2024-02-01T09:00:05.000Z'' ''req-2'' ''acc-003''
            (snd (accounts_check_active ''2024-02-01T09:00:00.000Z'' ''req-1'' ''acc-003'' seed)))
       = \<lparr> http_status = 200, result = False, reason = ''Account status is: suspended'',
           metadata = [(''accountId'', JStr ''acc-003''), (''status'', JStr ''suspended''),
                       (''accountNumber'', JStr ''1234567892'')],
           timestamp = ''2024-02-01T09:00:05.000Z'', requestId = ''req-2'' \<rparr>"
    using A [THEN conjunct2, THEN conjunct1] first by simp
  have l1: "snd (limits_check_available parseFloat_sample numberToString_sample
            ''2024-02-01T09:00:00.000Z'' ''req-1'' ''acc-001'' (Some ''500'') None seed) = seed"
    using L [THEN conjunct1] .
  have l2: "fst (limits_check_available parseFloat_sample numberToString_sample
            ''2024-02-01T09:00:05.000Z'' ''req-2'' ''acc-001'' (Some ''500'') None
            (snd (limits_check_available parseFloat_sample numberToString_sample
                    ''2024-02-01T09:00:00.000Z'' ''req-1'' ''acc-001'' (Some ''500'') None seed)))
       = \<lparr> http_status = 200, result = True, reason = ''Daily limit available: 750 GHS'',
           metadata = [(''accountId'', JStr ''acc-001''), (''period'', JStr ''daily''),
                       (''requestedAmount'', JNum 500), (''remaining'', JNum 750),
                       (''limit'', JNum 1000), (''used'', JNum 250),
                       (''currency'', JStr ''GHS'')],
           timestamp = ''2024-02-01T09:00:05.000Z'', requestId = ''req-2'' \<rparr>"
    using L [THEN conjunct2] limit by simp
  from a1 a2 first l1 l2 show ?thesis
    by blast
qed

end
